theory Spec2Isabelle
  imports Main "HOL-Library.Stream"
begin

section \<open>Go values shared by the provider adapters\<close>

text \<open>
  The adapters of \<^verbatim>\<open>internal/providers\<close> are embedded function by function.  A Go
  method with a pointer receiver becomes a function that takes the struct and returns the
  updated struct together with the method's results; a Go \<^verbatim>\<open>error\<close> result is an
  \<open>error option\<close> (\<open>None\<close> is \<^verbatim>\<open>nil\<close>).  Everything an adapter obtains from
  outside the process (environment, HTTP, SDK streams, the JSON codec, the clock) is a
  parameter of the function that reads it.  Calls to the logger and to the coloured
  terminal printer write text and influence neither results nor conversation state; they
  are left out.
\<close>

text \<open>
  Error values.  \<open>Errorf s\<close> is an error whose text is \<open>s\<close>, as \<^verbatim>\<open>fmt.Errorf\<close>
  builds it (an error wrapped with \<^verbatim>\<open>%w\<close> contributes its text).  The three sentinels
  are compared by identity in the source; their texts are those of the Go libraries.
  \<open>openai_APIError\<close> is the SDK's \<^verbatim>\<open>*openai.APIError\<close> with the fields the source
  formats (\<^verbatim>\<open>HTTPStatusCode\<close>, \<^verbatim>\<open>Code\<close> as \<^verbatim>\<open>%s\<close> renders it,
  \<^verbatim>\<open>Message\<close>) and, last, the text its \<^verbatim>\<open>Error()\<close> method returns.
\<close>

datatype error =
    io_EOF
  | iterator_Done
  | context_DeadlineExceeded
  | Errorf string
  | openai_APIError int string string string

fun Error :: "error \<Rightarrow> string" where
  "Error io_EOF = ''EOF''"
| "Error iterator_Done = ''no more items in iterator''"
| "Error context_DeadlineExceeded = ''context deadline exceeded''"
| "Error (Errorf s) = s"
| "Error (openai_APIError status code message text) = text"

type_synonym Duration = int

type_synonym environ = "string \<rightharpoonup> string"

definition Getenv :: "environ \<Rightarrow> string \<Rightarrow> string" where
  \<comment> \<open>\<^verbatim>\<open>os.Getenv\<close>: the empty string when the variable is not present.\<close>
  "Getenv env key = (case env key of None \<Rightarrow> [] | Some v \<Rightarrow> v)"

type_synonym models = "(string \<times> string) list"

definition index :: "models \<Rightarrow> string \<Rightarrow> string" where
  \<comment> \<open>\<^verbatim>\<open>m[key]\<close> on a \<^verbatim>\<open>map[string]string\<close>: the zero value for a missing key.\<close>
  "index m key = (case map_of m key of None \<Rightarrow> [] | Some v \<Rightarrow> v)"

fun HasPrefix :: "string \<Rightarrow> string \<Rightarrow> bool" where
  "HasPrefix s [] = True"
| "HasPrefix [] (p # ps) = False"
| "HasPrefix (c # cs) (p # ps) = (c = p \<and> HasPrefix cs ps)"

fun Contains :: "string \<Rightarrow> string \<Rightarrow> bool" where
  \<comment> \<open>\<^verbatim>\<open>strings.Contains\<close>\<close>
  "Contains [] substr = HasPrefix [] substr"
| "Contains (c # cs) substr = (HasPrefix (c # cs) substr \<or> Contains cs substr)"

fun utoa :: "nat \<Rightarrow> string" where
  "utoa n = (if n < 10 then [''0123456789'' ! n]
             else utoa (n div 10) @ [''0123456789'' ! (n mod 10)])"

declare utoa.simps [simp del]

definition itoa :: "int \<Rightarrow> string" where
  \<comment> \<open>the \<^verbatim>\<open>%d\<close> verb of \<^verbatim>\<open>fmt\<close>\<close>
  "itoa i = (if i < 0 then CHR ''-'' # utoa (nat (- i)) else utoa (nat i))"

text \<open>
  Modelled from the spec: package \<^verbatim>\<open>internal/consts\<close> (the role names
  \<^verbatim>\<open>SystemRole\<close>, \<^verbatim>\<open>UserRole\<close>, \<^verbatim>\<open>AssistantRole\<close>) is not among the sources.  The
  spec gives a message's role as \<open>enum{system,user,assistant}\<close>.
\<close>

definition SystemRole :: string where
  "SystemRole = ''system''"

definition UserRole :: string where
  "UserRole = ''user''"

definition AssistantRole :: string where
  "AssistantRole = ''assistant''"

text \<open>A float constant of the source, kept as its decimal literal: mantissa and number of
  decimal places (\<open>(7, 1)\<close> is \<^verbatim>\<open>0.7\<close>).\<close>

type_synonym decimal = "int \<times> nat"

record http_Client =
  Timeout :: nat  \<comment> \<open>seconds\<close>

record http_Response =
  StatusCode :: int
  Body :: string  \<comment> \<open>the bytes \<^verbatim>\<open>resp.Body\<close> delivers\<close>

text \<open>
  One call of a receiving operation (\<^verbatim>\<open>decoder.Decode\<close>, \<^verbatim>\<open>stream.Recv\<close>,
  \<^verbatim>\<open>iter.Next\<close>) yields a value or an error.
\<close>

datatype 'a received = Received 'a | Failed error

text \<open>
  A Go run-time panic ends the program: the method that panics does not return.  An
  execution that can panic has a result of type \<open>'a execution\<close>.  Indexing a slice
  panics outside its range.
\<close>

datatype panic = index_out_of_range | nil_pointer_dereference | interface_conversion

datatype 'a execution = Returns 'a | Panics panic

definition elem :: "'a list \<Rightarrow> nat \<Rightarrow> 'a execution" where
  \<comment> \<open>\<^verbatim>\<open>xs[i]\<close>\<close>
  "elem xs i = (if i < length xs then Returns (xs ! i) else Panics index_out_of_range)"

section \<open>Ollama: chunked JSON streaming (\<^verbatim>\<open>ollama.go\<close>)\<close>

definition ollamaModels :: models where
  "ollamaModels =
    [(''mistral'', ''mistral:latest''),
     (''llama'', ''llama3:latest''),
     (''deepseek'', ''deepseek-coder:latest''),
     (''gemma'', ''gemma:latest'')]"

record OllamaMessage =
  Role :: string
  Content :: string

record OllamaRequest =
  Model :: string
  Messages :: "OllamaMessage list"
  Stream :: bool

text \<open>Of a decoded chunk the adapter reads \<^verbatim>\<open>Message\<close> and \<^verbatim>\<open>Done\<close> only.\<close>

record OllamaResponse =
  Message :: OllamaMessage
  Done :: bool

record OllamaClient =
  serverURL :: string
  messages :: "OllamaMessage list"
  selectedModel :: string
  httpClient :: "http_Client option"

text \<open>
  What \<^verbatim>\<open>SendMessage\<close> reaches outside the process: \<^verbatim>\<open>json.Marshal\<close> of the
  request, \<^verbatim>\<open>httpClient.Post\<close> (URL and request bytes), the results of the successive
  calls of \<^verbatim>\<open>decoder.Decode\<close> on the response body (an unending sequence: the body's
  end is the result \<^verbatim>\<open>io.EOF\<close>), and the reading of \<^verbatim>\<open>time.Since(start)\<close> when the
  method returns.
\<close>

record ollama_io =
  Marshal :: "OllamaRequest \<Rightarrow> error + string"
  Post :: "string \<Rightarrow> string \<Rightarrow> error + http_Response"
  Decoder :: "string \<Rightarrow> OllamaResponse received stream"
  Since :: Duration

definition OllamaClient_Initialize ::
  "environ \<Rightarrow> (string \<Rightarrow> error + http_Response) \<Rightarrow> OllamaClient \<Rightarrow> OllamaClient \<times> error option"
where
  "OllamaClient_Initialize env Get oc =
    (let url = Getenv env ''OLLAMA_URL'';
         url = (if url = [] then ''http://localhost:11434'' else url);
         modelEnv = Getenv env ''OLLAMA_MODEL'';
         selected = index ollamaModels modelEnv;
         selected = (if selected = [] then index ollamaModels ''llama'' else selected);
         oc = oc\<lparr>serverURL := url,
                 httpClient := Some \<lparr>Timeout = 60\<rparr>,
                 selectedModel := selected,
                 messages := [\<lparr>Role = SystemRole,
                               Content = ''Provide helpful and concise responses''\<rparr>]\<rparr>
     in case Get url of
          Inl err \<Rightarrow>
            (oc, Some (Errorf (''could not connect to Ollama server at '' @ url @ '': '' @ Error err)))
        | Inr resp \<Rightarrow>
            if StatusCode resp \<noteq> 200
            then (oc, Some (Errorf (''ollama server at '' @ url @ '' returned status ''
                                    @ itoa (StatusCode resp))))
            else (oc, None))"

definition OllamaClient_GetModelName :: "OllamaClient \<Rightarrow> string" where
  "OllamaClient_GetModelName oc = selectedModel oc"

text \<open>
  The receive loop \<^verbatim>\<open>for { ... }\<close>.  The first argument is what the decoder still has
  to deliver, the second the \<^verbatim>\<open>strings.Builder\<close>.  The loop has no bound of its own, so
  its result is optional: \<open>None\<close> stands for a loop that never leaves.  Otherwise the
  result is the builder's text and the error the loop left with (\<open>None\<close> for either
  \<^verbatim>\<open>break\<close>).
\<close>

partial_function (option) ollama_receive ::
  "OllamaResponse received stream \<Rightarrow> string \<Rightarrow> (string \<times> error option) option"
where
  "ollama_receive decoder fullResponse =
    (case shd decoder of
       Failed err \<Rightarrow>
         if err = io_EOF then Some (fullResponse, None)
         else Some (fullResponse, Some (Errorf (''failed to decode response: '' @ Error err)))
     | Received ollamaResp \<Rightarrow>
         if Done ollamaResp
         then Some (fullResponse @ Content (Message ollamaResp), None)
         else ollama_receive (stl decoder) (fullResponse @ Content (Message ollamaResp)))"

definition OllamaClient_SendMessage ::
  "ollama_io \<Rightarrow> OllamaClient \<Rightarrow> string
    \<Rightarrow> (OllamaClient \<times> string \<times> Duration \<times> error option) option"
where
  "OllamaClient_SendMessage io oc message =
    (let oc = oc\<lparr>messages := messages oc @ [\<lparr>Role = UserRole, Content = message\<rparr>]\<rparr>;
         reqPayload = \<lparr>Model = selectedModel oc, Messages = messages oc, Stream = True\<rparr>
     in case Marshal io reqPayload of
          Inl err \<Rightarrow> Some (oc, [], 0, Some (Errorf (''failed to marshal request: '' @ Error err)))
        | Inr reqData \<Rightarrow>
           (case Post io (serverURL oc @ ''/api/chat'') reqData of
              Inl err \<Rightarrow> Some (oc, [], 0, Some (Errorf (''failed to send request: '' @ Error err)))
            | Inr resp \<Rightarrow>
               if StatusCode resp \<noteq> 200
               then Some (oc, [], 0, Some (Errorf (''API request failed ('' @ itoa (StatusCode resp)
                                                    @ ''): '' @ Body resp)))
               else (case ollama_receive (Decoder io (Body resp)) [] of
                       None \<Rightarrow> None
                     | Some (partial, Some err) \<Rightarrow> Some (oc, partial, Since io, Some err)
                     | Some (finalResponseStr, None) \<Rightarrow>
                         Some (oc\<lparr>messages := messages oc
                                  @ [\<lparr>Role = AssistantRole, Content = finalResponseStr\<rparr>]\<rparr>,
                               finalResponseStr, Since io, None))))"


subsection \<open>Decoding a chunk into \<^verbatim>\<open>OllamaResponse\<close>\<close>

text \<open>
  \<^verbatim>\<open>decoder.Decode(&ollamaResp)\<close> reads the next JSON value of the body and stores it
  in the \<^verbatim>\<open>OllamaResponse\<close> declared afresh in each round of the loop.  Which member
  of a JSON object reaches which field is fixed by the struct tags of the source:
  \<^verbatim>\<open>model\<close>, \<^verbatim>\<open>created_at\<close>, \<^verbatim>\<open>message\<close> and \<^verbatim>\<open>done\<close> in
  \<^verbatim>\<open>OllamaResponse\<close>, \<^verbatim>\<open>role\<close> and \<^verbatim>\<open>content\<close> in \<^verbatim>\<open>OllamaMessage\<close>.

  A JSON value as it stands in the body.  An object keeps its members in the order of the
  text, repeated names included; a number keeps its literal.
\<close>

datatype json =
    json_null
  | json_bool bool
  | json_number string
  | json_string string
  | json_array "json list"
  | json_object "(string \<times> json) list"

text \<open>
  What the decoding takes from \<^verbatim>\<open>encoding/json\<close> and \<^verbatim>\<open>time\<close>: the folding of
  names under which a member's name matches a tag when it is not equal to it, the
  \<^verbatim>\<open>*json.UnmarshalTypeError\<close> for a value that does not fit the field at a path of
  tags (the empty path is the \<^verbatim>\<open>OllamaResponse\<close> itself), and
  \<^verbatim>\<open>(*time.Time).UnmarshalJSON\<close>.
\<close>

record encoding_json =
  foldName :: "string \<Rightarrow> string"
  UnmarshalTypeError :: "json \<Rightarrow> string list \<Rightarrow> error"
  Time_UnmarshalJSON :: "json \<Rightarrow> error option"

definition field :: "encoding_json \<Rightarrow> string list \<Rightarrow> string \<Rightarrow> string option" where
  \<comment> \<open>the field a member's name selects: the tag equal to it, else the first tag that matches
     it after folding; a member that selects no field is skipped\<close>
  "field lib tags key =
    (if key \<in> set tags then Some key
     else find (\<lambda>tag. foldName lib tag = foldName lib key) tags)"

definition saveError :: "error option \<Rightarrow> error \<Rightarrow> error option" where
  \<comment> \<open>a value of the wrong type does not stop the decoding; the first such error is kept and
     returned at the end\<close>
  "saveError savedError err = (if savedError = None then Some err else savedError)"

text \<open>
  Storing a value in a field of type \<^verbatim>\<open>string\<close>, \<^verbatim>\<open>bool\<close> or
  \<^verbatim>\<open>OllamaMessage\<close>: \<^verbatim>\<open>null\<close> leaves the field as it is, a value of the field's
  type is stored, any other value is an error to keep.
\<close>

definition store_string ::
  "encoding_json \<Rightarrow> string list \<Rightarrow> json \<Rightarrow> string \<times> error option \<Rightarrow> string \<times> error option"
where
  "store_string lib path v st =
    (case v of
       json_null \<Rightarrow> st
     | json_string s \<Rightarrow> (s, snd st)
     | _ \<Rightarrow> (fst st, saveError (snd st) (UnmarshalTypeError lib v path)))"

definition store_bool ::
  "encoding_json \<Rightarrow> string list \<Rightarrow> json \<Rightarrow> bool \<times> error option \<Rightarrow> bool \<times> error option"
where
  "store_bool lib path v st =
    (case v of
       json_null \<Rightarrow> st
     | json_bool b \<Rightarrow> (b, snd st)
     | _ \<Rightarrow> (fst st, saveError (snd st) (UnmarshalTypeError lib v path)))"

fun OllamaMessage_object ::
  "encoding_json \<Rightarrow> string list \<Rightarrow> (string \<times> json) list \<Rightarrow> OllamaMessage \<times> error option
    \<Rightarrow> OllamaMessage \<times> error option"
where
  "OllamaMessage_object lib path [] st = st"
| "OllamaMessage_object lib path ((key, v) # members) (m, savedError) =
    OllamaMessage_object lib path members
      (let f = field lib [''role'', ''content''] key
       in if f = Some ''role''
          then (case store_string lib (path @ [''role'']) v (Role m, savedError) of
                  (s, savedError) \<Rightarrow> (m\<lparr>Role := s\<rparr>, savedError))
          else if f = Some ''content''
          then (case store_string lib (path @ [''content'']) v (Content m, savedError) of
                  (s, savedError) \<Rightarrow> (m\<lparr>Content := s\<rparr>, savedError))
          else (m, savedError))"

definition store_OllamaMessage ::
  "encoding_json \<Rightarrow> string list \<Rightarrow> json \<Rightarrow> OllamaMessage \<times> error option
    \<Rightarrow> OllamaMessage \<times> error option"
where
  "store_OllamaMessage lib path v st =
    (case v of
       json_null \<Rightarrow> st
     | json_object members \<Rightarrow> OllamaMessage_object lib path members st
     | _ \<Rightarrow> (fst st, saveError (snd st) (UnmarshalTypeError lib v path)))"

text \<open>
  The members of a chunk, in order.  \<^verbatim>\<open>Model\<close> and \<^verbatim>\<open>CreatedAt\<close> are decoded and
  never read, so only their errors are followed; an error of
  \<^verbatim>\<open>(*time.Time).UnmarshalJSON\<close> ends the decoding at once (\<open>Inl\<close>).
\<close>

fun OllamaResponse_object ::
  "encoding_json \<Rightarrow> (string \<times> json) list \<Rightarrow> OllamaResponse \<times> error option
    \<Rightarrow> error + OllamaResponse \<times> error option"
where
  "OllamaResponse_object lib [] st = Inr st"
| "OllamaResponse_object lib ((key, v) # members) (r, savedError) =
    (let f = field lib [''model'', ''created_at'', ''message'', ''done''] key
     in if f = Some ''model''
        then OllamaResponse_object lib members
               (r, snd (store_string lib [''model''] v ([], savedError)))
        else if f = Some ''created_at''
        then (case Time_UnmarshalJSON lib v of
                Some err \<Rightarrow> Inl err
              | None \<Rightarrow> OllamaResponse_object lib members (r, savedError))
        else if f = Some ''message''
        then (case store_OllamaMessage lib [''message''] v (Message r, savedError) of
                (m, savedError) \<Rightarrow>
                  OllamaResponse_object lib members (r\<lparr>Message := m\<rparr>, savedError))
        else if f = Some ''done''
        then (case store_bool lib [''done''] v (Done r, savedError) of
                (b, savedError) \<Rightarrow>
                  OllamaResponse_object lib members (r\<lparr>Done := b\<rparr>, savedError))
        else OllamaResponse_object lib members (r, savedError))"

definition Decoder_Decode :: "encoding_json \<Rightarrow> json \<Rightarrow> OllamaResponse received" where
  "Decoder_Decode lib v =
    (let ollamaResp = \<lparr>Message = \<lparr>Role = [], Content = []\<rparr>, Done = False\<rparr>
     in case v of
          json_null \<Rightarrow> Received ollamaResp
        | json_object members \<Rightarrow>
            (case OllamaResponse_object lib members (ollamaResp, None) of
               Inl err \<Rightarrow> Failed err
             | Inr (ollamaResp, Some err) \<Rightarrow> Failed err
             | Inr (ollamaResp, None) \<Rightarrow> Received ollamaResp)
        | _ \<Rightarrow> Failed (UnmarshalTypeError lib v []))"

text \<open>
  The decoder on a body: the body delivers JSON values one after the other, or fails (with
  \<^verbatim>\<open>io.EOF\<close> at its end, with a read or syntax error before); each value delivered is
  decoded into a chunk.
\<close>

definition json_NewDecoder ::
  "encoding_json \<Rightarrow> json received stream \<Rightarrow> OllamaResponse received stream"
where
  "json_NewDecoder lib body =
    smap (\<lambda>next. case next of
                   Received v \<Rightarrow> Decoder_Decode lib v
                 | Failed err \<Rightarrow> Failed err)
         body"
section \<open>OpenAI-compatible delta streaming (\<^verbatim>\<open>openai.go\<close>, \<^verbatim>\<open>groq.go\<close>, \<^verbatim>\<open>together.go\<close>)\<close>

text \<open>
  The types of the \<^verbatim>\<open>go-openai\<close> SDK, with the fields the adapters read or write.
  A client handle is its configuration.  \<^verbatim>\<open>openai.NewClient\<close> and
  \<^verbatim>\<open>openai.DefaultConfig\<close> leave the base URL at the SDK's own default, which is
  \<open>None\<close> here; an adapter that sets the field stores \<open>Some url\<close>.
\<close>

record openai_Client =
  authToken :: string
  BaseURL :: "string option"

definition openai_DefaultConfig :: "string \<Rightarrow> openai_Client" where
  "openai_DefaultConfig apiKey = \<lparr>authToken = apiKey, BaseURL = None\<rparr>"

record openai_ChatCompletionStreamChoiceDelta =
  Content :: string

record openai_ChatCompletionStreamChoice =
  Delta :: openai_ChatCompletionStreamChoiceDelta

record openai_ChatCompletionStreamResponse =
  Choices :: "openai_ChatCompletionStreamChoice list"

record openai_ChatCompletionMessage =
  Role :: string
  Content :: string

record openai_ChatCompletionRequest =
  Model :: string
  Messages :: "openai_ChatCompletionMessage list"
  Stream :: bool

text \<open>
  What \<^verbatim>\<open>SendMessage\<close> of these three adapters reaches outside the process:
  \<^verbatim>\<open>CreateChatCompletionStream\<close> on the client handle, which fails or opens a stream
  (the results of the successive calls of \<^verbatim>\<open>stream.Recv\<close>); the expansion
  \<^verbatim>\<open>fmt\<close> gives a format string that is passed without operands (the source calls
  \<^verbatim>\<open>fmt.Errorf(errMsg)\<close> on a computed text); and \<^verbatim>\<open>time.Since(start)\<close>.
\<close>

record openai_io =
  CreateChatCompletionStream ::
    "openai_Client option \<Rightarrow> openai_ChatCompletionRequest
      \<Rightarrow> error + openai_ChatCompletionStreamResponse received stream"
  Sprintf :: "string \<Rightarrow> string"
  Since :: Duration

text \<open>
  The receive loop.  The three files carry the same loop, letter for letter up to the
  provider's name in the log lines, so it is written once.  A receive error ends the loop
  normally when it is \<^verbatim>\<open>io.EOF\<close> or its text contains \<^verbatim>\<open>EOF\<close>; any other error
  leaves the method with the text built so far.  \<open>None\<close> is a loop that never leaves,
  \<open>Panics\<close> an index outside \<^verbatim>\<open>response.Choices\<close>.
\<close>

partial_function (option) stream_receive ::
  "openai_ChatCompletionStreamResponse received stream \<Rightarrow> string
    \<Rightarrow> (string \<times> error option) execution option"
where
  "stream_receive stream fullResponse =
    (case shd stream of
       Failed err \<Rightarrow>
         if err = io_EOF \<or> Contains (Error err) ''EOF''
         then Some (Returns (fullResponse, None))
         else Some (Returns (fullResponse, Some (Errorf (''stream error: '' @ Error err))))
     | Received response \<Rightarrow>
         if length (Choices response) > 0
         then (case elem (Choices response) 0 of
                 Panics p \<Rightarrow> Some (Panics p)
               | Returns choice \<Rightarrow>
                   stream_receive (stl stream)
                     (fullResponse
                       @ openai_ChatCompletionStreamChoiceDelta.Content (Delta choice)))
         else stream_receive (stl stream) fullResponse)"

subsection \<open>\<^verbatim>\<open>utils.ValidateAPIKey\<close> (\<^verbatim>\<open>validation.go\<close>)\<close>

text \<open>
  The key is a byte string; \<^verbatim>\<open>len\<close> and \<^verbatim>\<open>key[:3]\<close> work on bytes, the
  \<^verbatim>\<open>range\<close> loop on the runes Go decodes from them.  The decoding and the two
  predicates of package \<^verbatim>\<open>unicode\<close> belong to the Go library and are parameters.
\<close>

record unicode =
  runes :: "string \<Rightarrow> nat list"
  IsLetter :: "nat \<Rightarrow> bool"
  IsDigit :: "nat \<Rightarrow> bool"

definition ValidateAPIKey :: "unicode \<Rightarrow> string \<Rightarrow> string \<Rightarrow> bool" where
  "ValidateAPIKey u key provider =
    (if key = [] then False
     else if length key < 20 then False
     else if \<exists>c \<in> set (runes u key).
               \<not> IsLetter u c \<and> \<not> IsDigit u c \<and> c \<noteq> 45 \<and> c \<noteq> 95 \<and> c \<noteq> 46
          then False
     else if provider = ''openai'' \<and> length key \<ge> 3 \<and> take 3 key \<noteq> ''sk-'' then False
     else True)"

subsection \<open>OpenAI\<close>

definition openaiModels :: models where
  "openaiModels = [(''gpt-4.1-nano'', ''gpt-4.1-nano'')]"

record OpenAIClient =
  client :: "openai_Client option"
  messages :: "openai_ChatCompletionMessage list"
  selectedModel :: string

definition OpenAIClient_Initialize ::
  "unicode \<Rightarrow> environ \<Rightarrow> OpenAIClient \<Rightarrow> OpenAIClient \<times> error option"
where
  "OpenAIClient_Initialize u env oc =
    (let apiKey = Getenv env ''OPENAI_API_KEY''
     in if apiKey = [] then (oc, Some (Errorf ''OPENAI_API_KEY env var not set''))
        else if \<not> ValidateAPIKey u apiKey ''openai''
        then (oc, Some (Errorf ''OPENAI_API_KEY appears invalid''))
        else
          (let oc = oc\<lparr>client := Some (openai_DefaultConfig apiKey)\<rparr>;
               modelEnv = Getenv env ''OPENAI_MODEL'';
               selected = index openaiModels modelEnv;
               selected = (if selected = [] then index openaiModels ''gpt-4.1-nano''
                           else selected);
               oc = oc\<lparr>selectedModel := selected,
                       messages := [\<lparr>Role = SystemRole,
                                     Content = ''Provide helpful and concise responses''\<rparr>]\<rparr>
           in (oc, None)))"

definition OpenAIClient_GetModelName :: "OpenAIClient \<Rightarrow> string" where
  "OpenAIClient_GetModelName oc = selectedModel oc"

definition OpenAIClient_SendMessage ::
  "openai_io \<Rightarrow> OpenAIClient \<Rightarrow> string
    \<Rightarrow> (OpenAIClient \<times> string \<times> Duration \<times> error option) execution option"
where
  "OpenAIClient_SendMessage io oc message =
    (let oc = oc\<lparr>messages := messages oc @ [\<lparr>Role = UserRole, Content = message\<rparr>]\<rparr>;
         req = \<lparr>Model = selectedModel oc, Messages = messages oc, Stream = True\<rparr>
     in case CreateChatCompletionStream io (client oc) req of
          Inl err \<Rightarrow>
            (let errMsg = ''failed to create stream: '' @ Error err;
                 errMsg = (case err of
                             openai_APIError status code msg text \<Rightarrow>
                               ''OpenAI API error ('' @ itoa status @ ''): '' @ code
                                 @ '' - '' @ msg
                           | _ \<Rightarrow> errMsg)
             in Some (Returns (oc, [], 0, Some (Errorf (Sprintf io errMsg)))))
        | Inr stream \<Rightarrow>
            (case stream_receive stream [] of
               None \<Rightarrow> None
             | Some (Panics p) \<Rightarrow> Some (Panics p)
             | Some (Returns (partial, Some err)) \<Rightarrow>
                 Some (Returns (oc, partial, Since io, Some err))
             | Some (Returns (finalResponseStr, None)) \<Rightarrow>
                 Some (Returns
                   (oc\<lparr>messages := messages oc
                        @ [\<lparr>Role = AssistantRole, Content = finalResponseStr\<rparr>]\<rparr>,
                    finalResponseStr, Since io, None))))"

subsection \<open>Groq\<close>

definition groqModels :: models where
  "groqModels = [(''gemma'', ''gemma2-9b-it'')]"

record GroqClient =
  client :: "openai_Client option"
  messages :: "openai_ChatCompletionMessage list"
  selectedModel :: string

definition GroqClient_Initialize :: "environ \<Rightarrow> GroqClient \<Rightarrow> GroqClient \<times> error option" where
  "GroqClient_Initialize env g =
    (let apiKey = Getenv env ''GROQ_API_KEY''
     in if apiKey = [] then (g, Some (Errorf ''GROQ_API_KEY env var not set''))
        else
          (let modelEnv = Getenv env ''GROQ_MODEL'';
               selected = index groqModels modelEnv;
               selected = (if selected = [] then index groqModels ''gemma'' else selected);
               config = openai_DefaultConfig apiKey;
               config = config\<lparr>BaseURL := Some ''https://api.groq.com/openai/v1''\<rparr>;
               g = g\<lparr>selectedModel := selected,
                     client := Some config,
                     messages := [\<lparr>Role = SystemRole,
                                   Content = ''Provide helpful and concise responses''\<rparr>]\<rparr>
           in (g, None)))"

definition GroqClient_GetModelName :: "GroqClient \<Rightarrow> string" where
  "GroqClient_GetModelName g = selectedModel g"

definition GroqClient_SendMessage ::
  "openai_io \<Rightarrow> GroqClient \<Rightarrow> string
    \<Rightarrow> (GroqClient \<times> string \<times> Duration \<times> error option) execution option"
where
  "GroqClient_SendMessage io g message =
    (let g = g\<lparr>messages := messages g @ [\<lparr>Role = UserRole, Content = message\<rparr>]\<rparr>;
         req = \<lparr>Model = selectedModel g, Messages = messages g, Stream = True\<rparr>
     in case CreateChatCompletionStream io (client g) req of
          Inl err \<Rightarrow>
            (let errMsg = ''failed to create stream: '' @ Error err
             in Some (Returns (g, [], 0, Some (Errorf (Sprintf io errMsg)))))
        | Inr stream \<Rightarrow>
            (case stream_receive stream [] of
               None \<Rightarrow> None
             | Some (Panics p) \<Rightarrow> Some (Panics p)
             | Some (Returns (partial, Some err)) \<Rightarrow>
                 Some (Returns (g, partial, Since io, Some err))
             | Some (Returns (finalResponseStr, None)) \<Rightarrow>
                 Some (Returns
                   (g\<lparr>messages := messages g
                        @ [\<lparr>Role = AssistantRole, Content = finalResponseStr\<rparr>]\<rparr>,
                    finalResponseStr, Since io, None))))"

subsection \<open>Together\<close>

definition togetherModels :: models where
  "togetherModels =
    [(''llama-70b'', ''meta-llama/Llama-3.3-70B-Instruct-Turbo-Free''),
     (''deepseek'', ''deepseek-ai/DeepSeek-R1-Distill-Llama-70B-free'')]"

record TogetherClient =
  client :: "openai_Client option"
  messages :: "openai_ChatCompletionMessage list"
  selectedModel :: string

definition TogetherClient_Initialize ::
  "environ \<Rightarrow> TogetherClient \<Rightarrow> TogetherClient \<times> error option"
where
  "TogetherClient_Initialize env t =
    (let apiKey = Getenv env ''TOGETHER_API_KEY''
     in if apiKey = [] then (t, Some (Errorf ''TOGETHER_API_KEY env var not set''))
        else
          (let modelEnv = Getenv env ''TOGETHER_MODEL'';
               selected = index togetherModels modelEnv;
               selected = (if selected = [] then index togetherModels ''llama-70b''
                           else selected);
               config = openai_DefaultConfig apiKey;
               config = config\<lparr>BaseURL := Some ''https://api.together.xyz/v1''\<rparr>;
               t = t\<lparr>selectedModel := selected,
                     client := Some config,
                     messages := [\<lparr>Role = SystemRole,
                                   Content = ''Provide helpful and concise responses''\<rparr>]\<rparr>
           in (t, None)))"

definition TogetherClient_GetModelName :: "TogetherClient \<Rightarrow> string" where
  "TogetherClient_GetModelName t = selectedModel t"

definition TogetherClient_SendMessage ::
  "openai_io \<Rightarrow> TogetherClient \<Rightarrow> string
    \<Rightarrow> (TogetherClient \<times> string \<times> Duration \<times> error option) execution option"
where
  "TogetherClient_SendMessage io t message =
    (let t = t\<lparr>messages := messages t @ [\<lparr>Role = UserRole, Content = message\<rparr>]\<rparr>;
         req = \<lparr>Model = selectedModel t, Messages = messages t, Stream = True\<rparr>
     in case CreateChatCompletionStream io (client t) req of
          Inl err \<Rightarrow>
            (let errMsg = ''failed to create stream: '' @ Error err
             in Some (Returns (t, [], 0, Some (Errorf (Sprintf io errMsg)))))
        | Inr stream \<Rightarrow>
            (case stream_receive stream [] of
               None \<Rightarrow> None
             | Some (Panics p) \<Rightarrow> Some (Panics p)
             | Some (Returns (partial, Some err)) \<Rightarrow>
                 Some (Returns (t, partial, Since io, Some err))
             | Some (Returns (finalResponseStr, None)) \<Rightarrow>
                 Some (Returns
                   (t\<lparr>messages := messages t
                        @ [\<lparr>Role = AssistantRole, Content = finalResponseStr\<rparr>]\<rparr>,
                    finalResponseStr, Since io, None))))"

section \<open>Gemini: SDK iterator streaming (\<^verbatim>\<open>gemini.go\<close>)\<close>

definition geminiModels :: models where
  "geminiModels =
    [(''gemini-pro'', ''gemini-2.5-pro-exp-03-25''),
     (''gemini-flash'', ''gemini-2.5-flash-preview-04-17''),
     (''gemini-flash-lite'', ''gemini-2.0-flash-lite'')]"

text \<open>
  The types of the \<^verbatim>\<open>genai\<close> SDK.  \<^verbatim>\<open>genai.Part\<close> is an interface; \<open>Text\<close> is the
  one implementation the adapter accepts, \<open>Blob\<close> stands for every other one.  A
  candidate's \<^verbatim>\<open>Content\<close> is a pointer and may be \<^verbatim>\<open>nil\<close>.
\<close>

datatype genai_Part = Text string | Blob string string

record genai_Content =
  Role :: string
  Parts :: "genai_Part list"

record genai_Candidate =
  Content :: "genai_Content option"

record genai_GenerateContentResponse =
  Candidates :: "genai_Candidate list"

record genai_Client =
  APIKey :: string

record genai_GenerativeModel =
  name :: string
  Temperature :: "decimal option"
  TopP :: "decimal option"

record GeminiClient =
  client :: "genai_Client option"
  model :: "genai_GenerativeModel option"
  messages :: "genai_Content list"
  selectedModel :: string

text \<open>
  Outside the process: \<^verbatim>\<open>genai.NewClient\<close> (it may fail), the stream
  \<^verbatim>\<open>chat.SendMessageStream\<close> opens for a model, a history and a text (the results of
  the successive calls of \<^verbatim>\<open>iter.Next\<close>, whose end is the error
  \<^verbatim>\<open>iterator.Done\<close>), and \<^verbatim>\<open>time.Since(start)\<close>.
\<close>

record gemini_io =
  SendMessageStream ::
    "genai_GenerativeModel option \<Rightarrow> genai_Content list \<Rightarrow> string
      \<Rightarrow> genai_GenerateContentResponse received stream"
  Since :: Duration

definition GeminiClient_Initialize ::
  "(string \<Rightarrow> error + genai_Client) \<Rightarrow> environ \<Rightarrow> GeminiClient
    \<Rightarrow> GeminiClient \<times> error option"
where
  "GeminiClient_Initialize NewClient env g =
    (let apiKey = Getenv env ''GEMINI_API_KEY''
     in if apiKey = [] then (g, Some (Errorf ''GEMINI_API_KEY env var not set''))
        else
          (case NewClient apiKey of
             Inl err \<Rightarrow> (g, Some (Errorf (''failed to create Gemini client: '' @ Error err)))
           | Inr client' \<Rightarrow>
              (let g = g\<lparr>client := Some client'\<rparr>;
                   modelEnv = Getenv env ''GEMINI_MODEL'';
                   selected = index geminiModels modelEnv;
                   selected = (if selected = [] then index geminiModels ''gemini-flash-lite''
                               else selected);
                   g = g\<lparr>selectedModel := selected\<rparr>;
                   g = g\<lparr>model := Some \<lparr>name = selectedModel g,
                                          Temperature = Some (7, 1),
                                          TopP = Some (95, 2)\<rparr>\<rparr>;
                   g = g\<lparr>messages := []\<rparr>
               in (g, None))))"

definition GeminiClient_GetModelName :: "GeminiClient \<Rightarrow> string" where
  "GeminiClient_GetModelName g = selectedModel g"

text \<open>
  The receive loop can panic in three places: \<^verbatim>\<open>resp.Candidates[0]\<close> on an empty
  list, the dereference of a \<^verbatim>\<open>nil\<close> \<^verbatim>\<open>Content\<close>, and the assertion
  \<^verbatim>\<open>part.(genai.Text)\<close> on a part of another type.
\<close>

text \<open>The inner loop over the parts of one response, writing to the builder.\<close>

fun write_parts :: "genai_Part list \<Rightarrow> string \<Rightarrow> string execution" where
  "write_parts [] fullResponse = Returns fullResponse"
| "write_parts (Text chunk # parts) fullResponse = write_parts parts (fullResponse @ chunk)"
| "write_parts (Blob mime bytes # parts) fullResponse = Panics interface_conversion"

partial_function (option) gemini_receive ::
  "genai_GenerateContentResponse received stream \<Rightarrow> string
    \<Rightarrow> (string \<times> error option) execution option"
where
  "gemini_receive iter fullResponse =
    (case shd iter of
       Failed err \<Rightarrow>
         if err = iterator_Done then Some (Returns (fullResponse, None))
         else Some (Returns (fullResponse, Some (Errorf (''stream error: '' @ Error err))))
     | Received resp \<Rightarrow>
         (case elem (Candidates resp) 0 of
            Panics p \<Rightarrow> Some (Panics p)
          | Returns candidate \<Rightarrow>
             (case Content candidate of
                None \<Rightarrow> Some (Panics nil_pointer_dereference)
              | Some content \<Rightarrow>
                 (case write_parts (Parts content) fullResponse of
                    Panics p \<Rightarrow> Some (Panics p)
                  | Returns fullResponse \<Rightarrow> gemini_receive (stl iter) fullResponse))))"

definition GeminiClient_SendMessage ::
  "gemini_io \<Rightarrow> GeminiClient \<Rightarrow> string
    \<Rightarrow> (GeminiClient \<times> string \<times> Duration \<times> error option) execution option"
where
  "GeminiClient_SendMessage io g message =
    (let g = g\<lparr>messages := messages g @ [\<lparr>Role = ''user'', Parts = [Text message]\<rparr>]\<rparr>;
         History = (if length (messages g) > 1 then take (length (messages g) - 1) (messages g)
                    else []);
         iter = SendMessageStream io (model g) History message
     in case gemini_receive iter [] of
          None \<Rightarrow> None
        | Some (Panics p) \<Rightarrow> Some (Panics p)
        | Some (Returns (partial, Some err)) \<Rightarrow> Some (Returns (g, partial, Since io, Some err))
        | Some (Returns (finalResponseStr, None)) \<Rightarrow>
            Some (Returns
              (g\<lparr>messages := messages g
                   @ [\<lparr>Role = ''assistant'', Parts = [Text finalResponseStr]\<rparr>]\<rparr>,
               finalResponseStr, Since io, None)))"

section \<open>SambaNova: single-shot JSON (\<^verbatim>\<open>samba.go\<close>)\<close>

definition sambaModels :: models where
  "sambaModels = [(''llama-70b'', ''Meta-Llama-3.3-70B-Instruct'')]"

record Message =
  Role :: string
  Content :: string

record ChatCompletionRequest =
  Model :: string
  Messages :: "Message list"
  Temperature :: decimal
  Stream :: bool

text \<open>The response type nests two anonymous structs: a choice, and the message in it.\<close>

record ChatCompletionResponse_Message =
  Content :: string

record ChatCompletionResponse_Choice =
  Message :: ChatCompletionResponse_Message

record ChatCompletionResponse =
  Choices :: "ChatCompletionResponse_Choice list"

record SambaClient =
  apiKey :: string
  baseURL :: string
  messages :: "Message list"
  selectedModel :: string
  httpClient :: "http_Client option"

record http_Request =
  Method :: string
  URL :: string
  Header :: "(string \<times> string) list"
  Body :: string

definition Header_Set :: "(string \<times> string) list \<Rightarrow> string \<Rightarrow> string \<Rightarrow> (string \<times> string) list" where
  "Header_Set h key v = filter (\<lambda>(k, _). k \<noteq> key) h @ [(key, v)]"

text \<open>
  Outside the process: \<^verbatim>\<open>json.Marshal\<close> of the request,
  \<^verbatim>\<open>http.NewRequestWithContext\<close> (method, URL, body), \<^verbatim>\<open>httpClient.Do\<close>, the value
  of \<^verbatim>\<open>ctx.Err()\<close> once \<^verbatim>\<open>Do\<close> has failed, \<^verbatim>\<open>json.Unmarshal\<close> of the response bytes,
  and \<^verbatim>\<open>time.Since(start)\<close>.  An error of \<^verbatim>\<open>io.ReadAll\<close> is logged and otherwise
  ignored by the source; \<open>Body\<close> of the response is what was read.
\<close>

record samba_io =
  Marshal :: "ChatCompletionRequest \<Rightarrow> error + string"
  NewRequestWithContext :: "string \<Rightarrow> string \<Rightarrow> string \<Rightarrow> error + http_Request"
  Do :: "http_Request \<Rightarrow> error + http_Response"
  ctx_Err :: "error option"
  Unmarshal :: "string \<Rightarrow> error + ChatCompletionResponse"
  Since :: Duration

definition SambaClient_Initialize :: "environ \<Rightarrow> SambaClient \<Rightarrow> SambaClient \<times> error option" where
  "SambaClient_Initialize env s =
    (let s = s\<lparr>apiKey := Getenv env ''SAMBA_API_KEY''\<rparr>
     in if apiKey s = [] then (s, Some (Errorf ''SAMBA_API_KEY env var not set''))
        else
          (let modelEnv = Getenv env ''SAMBA_MODEL'';
               selected = index sambaModels modelEnv;
               selected = (if selected = [] then index sambaModels ''llama-70b'' else selected);
               s = s\<lparr>selectedModel := selected,
                     baseURL := ''https://api.sambanova.ai/v1'',
                     httpClient := Some \<lparr>Timeout = 60\<rparr>\<rparr>
           in (s, None)))"

definition SambaClient_GetModelName :: "SambaClient \<Rightarrow> string" where
  "SambaClient_GetModelName s = selectedModel s"

definition SambaClient_SendMessage ::
  "samba_io \<Rightarrow> SambaClient \<Rightarrow> string \<Rightarrow> SambaClient \<times> string \<times> Duration \<times> error option"
where
  "SambaClient_SendMessage io s message =
    (let currentMessages = messages s @ [\<lparr>Role = UserRole, Content = message\<rparr>];
         req = \<lparr>Model = selectedModel s, Messages = currentMessages,
                Temperature = (7, 1), Stream = False\<rparr>
     in case Marshal io req of
          Inl err \<Rightarrow> (s, [], 0, Some (Errorf (''failed to marshal request: '' @ Error err)))
        | Inr requestBody \<Rightarrow>
          (case NewRequestWithContext io ''POST'' (baseURL s @ ''/chat/completions'') requestBody of
             Inl err \<Rightarrow> (s, [], 0, Some (Errorf (''failed to create request: '' @ Error err)))
           | Inr httpReq \<Rightarrow>
             (let httpReq = httpReq\<lparr>Header := Header_Set (Header httpReq)
                                                ''Content-Type'' ''application/json''\<rparr>;
                  httpReq = httpReq\<lparr>Header := Header_Set (Header httpReq)
                                                ''Authorization'' (''Bearer '' @ apiKey s)\<rparr>
              in case Do io httpReq of
                   Inl err \<Rightarrow>
                     if ctx_Err io = Some context_DeadlineExceeded
                     then (s, [], 0, Some (Errorf ''request timed out after 90s''))
                     else (s, [], 0, Some (Errorf (''failed to send request: '' @ Error err)))
                 | Inr resp \<Rightarrow>
                    (let respBody = http_Response.Body resp
                     in if StatusCode resp \<noteq> 200
                        then (s, [], 0, Some (Errorf (''API request failed (''
                                                       @ itoa (StatusCode resp) @ ''): '' @ respBody)))
                        else
                          (case Unmarshal io respBody of
                             Inl err \<Rightarrow>
                               (s, [], 0, Some (Errorf (''failed to decode response: '' @ Error err)))
                           | Inr completionResp \<Rightarrow>
                               if length (Choices completionResp) = 0
                                  \<or> ChatCompletionResponse_Message.Content
                                       (Message (Choices completionResp ! 0)) = []
                               then (s, [], Since io, None)
                               else
                                 (let content = ChatCompletionResponse_Message.Content
                                                  (Message (Choices completionResp ! 0));
                                      elapsed = Since io
                                  in (s\<lparr>messages := currentMessages
                                          @ [\<lparr>Role = AssistantRole, Content = content\<rparr>]\<rparr>,
                                      content, elapsed, None)))))))"

section \<open>The client factory and the chat loop (\<^verbatim>\<open>package cli\<close>)\<close>

type_synonym Provider = string

definition ProviderTogether :: Provider where
  "ProviderTogether = ''together''"

definition ProviderOllama :: Provider where
  "ProviderOllama = ''ollama''"

definition ProviderGroq :: Provider where
  "ProviderGroq = ''groq''"

definition ProviderSamba :: Provider where
  "ProviderSamba = ''samba''"

definition ProviderOpenAI :: Provider where
  "ProviderOpenAI = ''openai''"

definition ProviderGemini :: Provider where
  "ProviderGemini = ''gemini''"

text \<open>
  A value of the interface \<^verbatim>\<open>providers.ChatInterface\<close> is one of the six adapters.
\<close>

datatype ChatInterface =
    Together TogetherClient
  | Ollama OllamaClient
  | Groq GroqClient
  | Samba SambaClient
  | OpenAI OpenAIClient
  | Gemini GeminiClient

fun GetModelName :: "ChatInterface \<Rightarrow> string" where
  "GetModelName (Together t) = TogetherClient_GetModelName t"
| "GetModelName (Ollama oc) = OllamaClient_GetModelName oc"
| "GetModelName (Groq g) = GroqClient_GetModelName g"
| "GetModelName (Samba s) = SambaClient_GetModelName s"
| "GetModelName (OpenAI oc) = OpenAIClient_GetModelName oc"
| "GetModelName (Gemini g) = GeminiClient_GetModelName g"

text \<open>The composite literals \<^verbatim>\<open>&providers.XClient{}\<close>: every field has its zero value.\<close>

definition new_TogetherClient :: TogetherClient where
  "new_TogetherClient =
    \<lparr>TogetherClient.client = None, TogetherClient.messages = [],
     TogetherClient.selectedModel = []\<rparr>"

definition new_GroqClient :: GroqClient where
  "new_GroqClient =
    \<lparr>GroqClient.client = None, GroqClient.messages = [], GroqClient.selectedModel = []\<rparr>"

definition new_OpenAIClient :: OpenAIClient where
  "new_OpenAIClient =
    \<lparr>OpenAIClient.client = None, OpenAIClient.messages = [],
     OpenAIClient.selectedModel = []\<rparr>"

definition new_SambaClient :: SambaClient where
  "new_SambaClient =
    \<lparr>apiKey = [], baseURL = [], SambaClient.messages = [], SambaClient.selectedModel = [],
     SambaClient.httpClient = None\<rparr>"

definition new_GeminiClient :: GeminiClient where
  "new_GeminiClient =
    \<lparr>GeminiClient.client = None, model = None, GeminiClient.messages = [],
     GeminiClient.selectedModel = []\<rparr>"

definition new_OllamaClient :: OllamaClient where
  "new_OllamaClient =
    \<lparr>serverURL = [], OllamaClient.messages = [], OllamaClient.selectedModel = [],
     OllamaClient.httpClient = None\<rparr>"

text \<open>
  What the \<^verbatim>\<open>Initialize\<close> methods reach outside the process: the environment, the
  liveness probe \<^verbatim>\<open>httpClient.Get\<close> of the Ollama adapter, \<^verbatim>\<open>genai.NewClient\<close>, and
  the Go library behind \<^verbatim>\<open>ValidateAPIKey\<close>.
\<close>

record process =
  Environ :: environ
  http_Get :: "string \<Rightarrow> error + http_Response"
  genai_NewClient :: "string \<Rightarrow> error + genai_Client"
  Unicode :: unicode

text \<open>
  The tail of \<^verbatim>\<open>CreateChatClient\<close> after the \<^verbatim>\<open>switch\<close>: an error of
  \<^verbatim>\<open>Initialize\<close> is returned with a \<^verbatim>\<open>nil\<close> client, otherwise the client.  The pair
  \<^verbatim>\<open>(client, error)\<close> of the source is a sum here: \<open>Inl err\<close> is \<^verbatim>\<open>(nil, err)\<close>,
  \<open>Inr c\<close> is \<^verbatim>\<open>(c, nil)\<close>.
\<close>

definition initialized :: "('c \<Rightarrow> ChatInterface) \<Rightarrow> 'c \<times> error option \<Rightarrow> error + ChatInterface" where
  "initialized wrap r = (case r of (c, Some err) \<Rightarrow> Inl err | (c, None) \<Rightarrow> Inr (wrap c))"

definition CreateChatClient :: "process \<Rightarrow> Provider \<Rightarrow> error + ChatInterface" where
  "CreateChatClient sys provider =
    (if provider = ProviderTogether then
       if Getenv (Environ sys) ''TOGETHER_API_KEY'' \<noteq> []
       then initialized Together (TogetherClient_Initialize (Environ sys) new_TogetherClient)
       else Inl (Errorf ''TOGETHER_API_KEY not set for Together provider'')
     else if provider = ProviderGroq then
       if Getenv (Environ sys) ''GROQ_API_KEY'' \<noteq> []
       then initialized Groq (GroqClient_Initialize (Environ sys) new_GroqClient)
       else Inl (Errorf ''GROQ_API_KEY not set for Groq provider'')
     else if provider = ProviderSamba then
       if Getenv (Environ sys) ''SAMBA_API_KEY'' \<noteq> []
       then initialized Samba (SambaClient_Initialize (Environ sys) new_SambaClient)
       else Inl (Errorf ''SAMBA_API_KEY not set for Samba provider'')
     else if provider = ProviderOpenAI then
       if Getenv (Environ sys) ''OPENAI_API_KEY'' \<noteq> []
       then initialized OpenAI
              (OpenAIClient_Initialize (Unicode sys) (Environ sys) new_OpenAIClient)
       else Inl (Errorf ''OPENAI_API_KEY not set for OpenAI provider'')
     else if provider = ProviderGemini then
       if Getenv (Environ sys) ''GEMINI_API_KEY'' \<noteq> []
       then initialized Gemini
              (GeminiClient_Initialize (genai_NewClient sys) (Environ sys) new_GeminiClient)
       else Inl (Errorf ''GEMINI_API_KEY not set for Gemini provider'')
     else if provider = ProviderOllama then
       initialized Ollama (OllamaClient_Initialize (Environ sys) (http_Get sys) new_OllamaClient)
     else Inl (Errorf (''unsupported provider: '' @ provider)))"



section \<open>Vocabulary of the properties\<close>

text \<open>Message literals of the four message types, by role and text.\<close>

abbreviation ollama_message :: "string \<Rightarrow> string \<Rightarrow> OllamaMessage" where
  "ollama_message role content \<equiv>
    \<lparr>OllamaMessage.Role = role, OllamaMessage.Content = content\<rparr>"

abbreviation openai_message :: "string \<Rightarrow> string \<Rightarrow> openai_ChatCompletionMessage" where
  "openai_message role content \<equiv>
    \<lparr>openai_ChatCompletionMessage.Role = role, openai_ChatCompletionMessage.Content = content\<rparr>"

abbreviation samba_message :: "string \<Rightarrow> string \<Rightarrow> Message" where
  "samba_message role content \<equiv> \<lparr>Message.Role = role, Message.Content = content\<rparr>"

abbreviation genai_message :: "string \<Rightarrow> string \<Rightarrow> genai_Content" where
  "genai_message role content \<equiv> \<lparr>genai_Content.Role = role, Parts = [Text content]\<rparr>"

text \<open>The streaming request of the three SDK adapters for a model and a history.\<close>

abbreviation openai_request ::
  "string \<Rightarrow> openai_ChatCompletionMessage list \<Rightarrow> openai_ChatCompletionRequest"
where
  "openai_request m history \<equiv>
    \<lparr>openai_ChatCompletionRequest.Model = m,
     openai_ChatCompletionRequest.Messages = history,
     openai_ChatCompletionRequest.Stream = True\<rparr>"

text \<open>
  The text a sequence of delta events carries: the delta content of the first choice of
  every event that has a choice, in order.
\<close>

definition delta_text :: "openai_ChatCompletionStreamResponse list \<Rightarrow> string" where
  "delta_text events =
    concat (map (\<lambda>response. openai_ChatCompletionStreamChoiceDelta.Content
                                (Delta (openai_ChatCompletionStreamResponse.Choices response ! 0)))
                (filter (\<lambda>response. openai_ChatCompletionStreamResponse.Choices response \<noteq> [])
                        events))"

text \<open>
  The text one streamed Gemini response carries, when the receive loop can read it: the
  response has a first candidate, the candidate has a content, and every part of the
  content is a \<open>Text\<close>.
\<close>

fun parts_text :: "genai_Part list \<Rightarrow> string option" where
  "parts_text [] = Some []"
| "parts_text (Text chunk # parts) = map_option (\<lambda>more. chunk @ more) (parts_text parts)"
| "parts_text (Blob mime bytes # parts) = None"

definition candidate_text :: "genai_GenerateContentResponse \<Rightarrow> string option" where
  "candidate_text resp =
    (case Candidates resp of
       [] \<Rightarrow> None
     | candidate # others \<Rightarrow>
        (case genai_Candidate.Content candidate of
           None \<Rightarrow> None
         | Some content \<Rightarrow> parts_text (Parts content)))"

text \<open>
  The request the SambaNova adapter builds for a message, and the HTTP request it sends
  once the two headers are set.
\<close>

abbreviation samba_request :: "SambaClient \<Rightarrow> string \<Rightarrow> ChatCompletionRequest" where
  "samba_request s message \<equiv>
    \<lparr>ChatCompletionRequest.Model = SambaClient.selectedModel s,
     ChatCompletionRequest.Messages = SambaClient.messages s @ [samba_message UserRole message],
     ChatCompletionRequest.Temperature = (7, 1),
     ChatCompletionRequest.Stream = False\<rparr>"

abbreviation samba_headers :: "SambaClient \<Rightarrow> http_Request \<Rightarrow> http_Request" where
  "samba_headers s httpReq \<equiv>
    httpReq\<lparr>Header :=
      Header_Set (Header_Set (Header httpReq) ''Content-Type'' ''application/json'')
                 ''Authorization'' (''Bearer '' @ apiKey s)\<rparr>"



text \<open>
  A model-alias variable is unrecognized when its value, the empty text if it is unset, is
  no key of the provider's table.
\<close>

definition unrecognized :: "models \<Rightarrow> environ \<Rightarrow> string \<Rightarrow> bool" where
  "unrecognized table env var = (Getenv env var \<notin> fst ` set table)"

section \<open>Scripted backends for concrete runs\<close>

text \<open>
  Concrete instances of the outside world, on which the adapters are evaluated below: a
  backend that accepts every request and plays back a fixed script.
\<close>

definition scripted_ollama :: "OllamaResponse received stream \<Rightarrow> ollama_io" where
  "scripted_ollama frames =
    \<lparr>ollama_io.Marshal = (\<lambda>req. Inr ''{}''),
     Post = (\<lambda>url body. Inr \<lparr>StatusCode = 200, http_Response.Body = ''ndjson''\<rparr>),
     Decoder = (\<lambda>body. frames),
     ollama_io.Since = 1500\<rparr>"

definition ready_ollama :: OllamaClient where
  "ready_ollama =
    \<lparr>serverURL = ''http://localhost:11434'',
     OllamaClient.messages =
       [\<lparr>OllamaMessage.Role = SystemRole,
         OllamaMessage.Content = ''Provide helpful and concise responses''\<rparr>],
     OllamaClient.selectedModel = ''llama3:latest'',
     OllamaClient.httpClient = Some \<lparr>Timeout = 60\<rparr>\<rparr>"

definition ollama_frame :: "string \<Rightarrow> bool \<Rightarrow> OllamaResponse received" where
  "ollama_frame content done =
    Received \<lparr>OllamaResponse.Message =
                \<lparr>OllamaMessage.Role = AssistantRole, OllamaMessage.Content = content\<rparr>,
              Done = done\<rparr>"

text \<open>
  The JSON library on ASCII names: letters are matched without regard to case, a value of
  the wrong type gives an error that names the path, and every JSON string is taken for a
  time.
\<close>

definition go_json :: encoding_json where
  "go_json =
    \<lparr>foldName = map (\<lambda>c. let n = of_char c :: nat
                           in if 65 \<le> n \<and> n \<le> 90 then char_of (n + 32) else c),
     UnmarshalTypeError =
       (\<lambda>v path. Errorf (''json: cannot unmarshal value into Go struct field ''
                           @ concat (map (\<lambda>tag. CHR ''.'' # tag) path))),
     Time_UnmarshalJSON =
       (\<lambda>v. case v of
               json_null \<Rightarrow> None
             | json_string s \<Rightarrow> None
             | _ \<Rightarrow> Some (Errorf ''Time.UnmarshalJSON: input is not a JSON string''))\<rparr>"

text \<open>
  Two shapes of a frame on the wire: the fragment as a member \<^verbatim>\<open>content\<close> of the frame
  itself, \<^verbatim>\<open>{"content": c, "done": d}\<close>, and the fragment inside the member
  \<^verbatim>\<open>message\<close>, \<^verbatim>\<open>{"message": {"content": c}, "done": d}\<close>.
\<close>

definition content_frame :: "string \<Rightarrow> bool \<Rightarrow> json" where
  "content_frame content done =
    json_object [(''content'', json_string content), (''done'', json_bool done)]"

definition message_frame :: "string \<Rightarrow> bool \<Rightarrow> json" where
  "message_frame content done =
    json_object [(''message'', json_object [(''content'', json_string content)]),
                 (''done'', json_bool done)]"

definition probe_answers :: "string \<Rightarrow> int \<Rightarrow> string \<Rightarrow> error + http_Response" where
  "probe_answers endpoint status url =
    (if url = endpoint
     then Inr \<lparr>StatusCode = status, http_Response.Body = ''Ollama is running''\<rparr>
     else Inl (Errorf ''connection refused''))"

definition scripted_openai :: "openai_ChatCompletionStreamResponse received stream \<Rightarrow> openai_io" where
  "scripted_openai events =
    \<lparr>CreateChatCompletionStream = (\<lambda>handle req. Inr events),
     Sprintf = (\<lambda>format. format),
     openai_io.Since = 1500\<rparr>"

definition delta_event :: "string \<Rightarrow> openai_ChatCompletionStreamResponse received" where
  "delta_event content =
    Received \<lparr>openai_ChatCompletionStreamResponse.Choices =
                [\<lparr>Delta = \<lparr>openai_ChatCompletionStreamChoiceDelta.Content = content\<rparr>\<rparr>]\<rparr>"

definition empty_event :: "openai_ChatCompletionStreamResponse received" where
  "empty_event = Received \<lparr>openai_ChatCompletionStreamResponse.Choices = []\<rparr>"

definition ready_openai :: OpenAIClient where
  "ready_openai =
    \<lparr>OpenAIClient.client = Some (openai_DefaultConfig ''sk-0123456789abcdefghij''),
     OpenAIClient.messages =
       [openai_message SystemRole ''Provide helpful and concise responses''],
     OpenAIClient.selectedModel = ''gpt-4.1-nano''\<rparr>"

definition ready_groq :: GroqClient where
  "ready_groq =
    \<lparr>GroqClient.client =
       Some \<lparr>authToken = ''gsk'', BaseURL = Some ''https://api.groq.com/openai/v1''\<rparr>,
     GroqClient.messages =
       [openai_message SystemRole ''Provide helpful and concise responses''],
     GroqClient.selectedModel = ''gemma2-9b-it''\<rparr>"

definition ready_together :: TogetherClient where
  "ready_together =
    \<lparr>TogetherClient.client =
       Some \<lparr>authToken = ''tgt'', BaseURL = Some ''https://api.together.xyz/v1''\<rparr>,
     TogetherClient.messages =
       [openai_message SystemRole ''Provide helpful and concise responses''],
     TogetherClient.selectedModel = ''meta-llama/Llama-3.3-70B-Instruct-Turbo-Free''\<rparr>"

definition scripted_gemini :: "genai_GenerateContentResponse received stream \<Rightarrow> gemini_io" where
  "scripted_gemini responses =
    \<lparr>SendMessageStream = (\<lambda>m history text. responses), gemini_io.Since = 1500\<rparr>"

definition text_response :: "string list \<Rightarrow> genai_GenerateContentResponse" where
  "text_response chunks =
    \<lparr>Candidates =
       [\<lparr>genai_Candidate.Content =
           Some \<lparr>genai_Content.Role = ''model'', Parts = map Text chunks\<rparr>\<rparr>]\<rparr>"

definition ready_gemini :: GeminiClient where
  "ready_gemini =
    \<lparr>GeminiClient.client = Some \<lparr>APIKey = ''AIza''\<rparr>,
     model = Some \<lparr>name = ''gemini-2.0-flash-lite'', Temperature = Some (7, 1),
                   TopP = Some (95, 2)\<rparr>,
     GeminiClient.messages = [],
     GeminiClient.selectedModel = ''gemini-2.0-flash-lite''\<rparr>"

definition scripted_samba :: "int \<Rightarrow> string list \<Rightarrow> samba_io" where
  "scripted_samba status replies =
    \<lparr>samba_io.Marshal = (\<lambda>req. Inr ''{}''),
     NewRequestWithContext =
       (\<lambda>method url body. Inr \<lparr>Method = method, URL = url, Header = [],
                                http_Request.Body = body\<rparr>),
     Do = (\<lambda>httpReq. Inr \<lparr>StatusCode = status, http_Response.Body = ''{}''\<rparr>),
     ctx_Err = None,
     Unmarshal =
       (\<lambda>body. Inr \<lparr>ChatCompletionResponse.Choices =
                      map (\<lambda>reply. \<lparr>ChatCompletionResponse_Choice.Message =
                                      \<lparr>ChatCompletionResponse_Message.Content = reply\<rparr>\<rparr>)
                          replies\<rparr>),
     samba_io.Since = 1500\<rparr>"

definition unreachable_samba :: "error option \<Rightarrow> samba_io" where
  "unreachable_samba ctx =
    (scripted_samba 200 [])\<lparr>Do := (\<lambda>httpReq. Inl (Errorf ''dial tcp: i/o timeout'')),
                             ctx_Err := ctx\<rparr>"

definition ready_samba :: SambaClient where
  "ready_samba =
    \<lparr>apiKey = ''key'', baseURL = ''https://api.sambanova.ai/v1'', SambaClient.messages = [],
     SambaClient.selectedModel = ''Meta-Llama-3.3-70B-Instruct'',
     SambaClient.httpClient = Some \<lparr>Timeout = 60\<rparr>\<rparr>"

text \<open>The Go library on ASCII text: one rune for each byte, ASCII letters and digits.\<close>

definition ascii_unicode :: unicode where
  "ascii_unicode =
    \<lparr>runes = map of_char,
     IsLetter = (\<lambda>c. 65 \<le> c \<and> c \<le> 90 \<or> 97 \<le> c \<and> c \<le> 122),
     IsDigit = (\<lambda>c. 48 \<le> c \<and> c \<le> 57)\<rparr>"

definition offline :: "environ \<Rightarrow> process" where
  "offline env =
    \<lparr>Environ = env,
     http_Get = (\<lambda>url. Inl (Errorf ''connection refused'')),
     genai_NewClient = (\<lambda>key. Inr \<lparr>APIKey = key\<rparr>),
     Unicode = ascii_unicode\<rparr>"

definition all_keys :: environ where
  "all_keys =
    [''TOGETHER_API_KEY'' \<mapsto> ''tgt'',
     ''GROQ_API_KEY'' \<mapsto> ''gsk'',
     ''SAMBA_API_KEY'' \<mapsto> ''key'',
     ''OPENAI_API_KEY'' \<mapsto> ''sk-0123456789abcdefghij'',
     ''GEMINI_API_KEY'' \<mapsto> ''AIza'']"

section \<open>Properties of the receive loops\<close>

subsection \<open>Ollama\<close>

lemma ollama_receive_more:
  "\<not> Done f \<Longrightarrow>
   ollama_receive (Received f ## s) acc
     = ollama_receive s (acc @ OllamaMessage.Content (OllamaResponse.Message f))"
  by (subst ollama_receive.simps) simp

lemma ollama_receive_frames:
  "\<forall>f\<in>set fs. \<not> Done f \<Longrightarrow>
   ollama_receive (map Received fs @- s) acc
     = ollama_receive s
         (acc @ concat (map (\<lambda>f. OllamaMessage.Content (OllamaResponse.Message f)) fs))"
proof (induction fs arbitrary: acc)
  case Nil
  then show ?case by simp
next
  case (Cons f fs)
  then show ?case by (simp add: ollama_receive_more)
qed

lemma ollama_receive_EOF:
  "ollama_receive (Failed io_EOF ## s) acc = Some (acc, None)"
  by (subst ollama_receive.simps) simp

lemma ollama_receive_Failed:
  "err \<noteq> io_EOF \<Longrightarrow>
   ollama_receive (Failed err ## s) acc
     = Some (acc, Some (Errorf (''failed to decode response: '' @ Error err)))"
  by (subst ollama_receive.simps) simp

lemma ollama_receive_Done:
  "Done f \<Longrightarrow>
   ollama_receive (Received f ## s) acc
     = Some (acc @ OllamaMessage.Content (OllamaResponse.Message f), None)"
  by (subst ollama_receive.simps) simp

lemma Decoder_Decode_message_frame:
  "Decoder_Decode lib (message_frame c d)
     = Received \<lparr>OllamaResponse.Message =
                   \<lparr>OllamaMessage.Role = [], OllamaMessage.Content = c\<rparr>, Done = d\<rparr>"
  by (simp add: message_frame_def Decoder_Decode_def field_def store_OllamaMessage_def
        store_string_def store_bool_def Let_def)

lemma Decoder_Decode_content_frame:
  "Decoder_Decode go_json (content_frame c d)
     = Received \<lparr>OllamaResponse.Message =
                   \<lparr>OllamaMessage.Role = [], OllamaMessage.Content = []\<rparr>, Done = d\<rparr>"
  by (simp add: content_frame_def Decoder_Decode_def field_def store_bool_def go_json_def
        Let_def)

lemma json_NewDecoder_Received:
  "json_NewDecoder lib (Received v ## body) = Decoder_Decode lib v ## json_NewDecoder lib body"
  by (simp add: json_NewDecoder_def)

lemma json_NewDecoder_Failed:
  "json_NewDecoder lib (Failed err ## body) = Failed err ## json_NewDecoder lib body"
  by (simp add: json_NewDecoder_def)

text \<open>
  Claim C6.  Let the request be marshalled and posted and the backend answer with status
  200.  (a) If the message is \<open>hi\<close> and the body delivers the three frames
  \<^verbatim>\<open>{"message":{"content":"Hel"},"done":false}\<close>,
  \<^verbatim>\<open>{"message":{"content":"lo"},"done":false}\<close> and
  \<^verbatim>\<open>{"message":{"content":""},"done":true}\<close>, each decoded into an
  \<^verbatim>\<open>OllamaResponse\<close>, then \<^verbatim>\<open>SendMessage\<close> returns \<open>Hello\<close> with a nil error
  and appends exactly the user message and the assistant message \<open>Hello\<close>.  (b) In
  general, when the decoder delivers frames \<open>fs\<close> without the completion flag and then
  either end-of-stream or a frame \<open>d\<close> with the flag, whichever comes first, the loop
  leaves there, whatever follows in the stream: the method returns the concatenation of the
  contents of \<open>fs\<close> (and of \<open>d\<close>), with a nil error, and appends the user message and
  that reply.
\<close>

theorem ollama_stream_reassembly:
  assumes marshal:
      "ollama_io.Marshal io
         \<lparr>OllamaRequest.Model = OllamaClient.selectedModel oc,
          OllamaRequest.Messages = OllamaClient.messages oc
             @ [\<lparr>OllamaMessage.Role = UserRole, OllamaMessage.Content = message\<rparr>],
          OllamaRequest.Stream = True\<rparr> = Inr reqData"
    and post: "Post io (serverURL oc @ ''/api/chat'') reqData = Inr resp"
    and status: "StatusCode resp = 200"
  shows
   "(message = ''hi'' \<and>
     Decoder io (http_Response.Body resp) =
       json_NewDecoder lib
         (Received (message_frame ''Hel'' False) ##
          Received (message_frame ''lo'' False) ##
          Received (message_frame '''' True) ##
          rest\<^sub>0)
     \<longrightarrow> OllamaClient_SendMessage io oc message =
          Some (oc\<lparr>OllamaClient.messages := OllamaClient.messages oc
                     @ [\<lparr>OllamaMessage.Role = UserRole, OllamaMessage.Content = ''hi''\<rparr>,
                        \<lparr>OllamaMessage.Role = AssistantRole,
                         OllamaMessage.Content = ''Hello''\<rparr>]\<rparr>,
                ''Hello'', ollama_io.Since io, None))
    \<and> ((\<forall>f\<in>set fs. \<not> Done f) \<and>
        (Decoder io (http_Response.Body resp) = map Received fs @- (Failed io_EOF ## rest)
           \<and> last_frame = []
         \<or> Decoder io (http_Response.Body resp) = map Received fs @- (Received d ## rest)
           \<and> Done d \<and> last_frame = [d])
     \<longrightarrow> OllamaClient_SendMessage io oc message =
          (let reply = concat (map (\<lambda>f. OllamaMessage.Content (OllamaResponse.Message f))
                                   (fs @ last_frame))
           in Some (oc\<lparr>OllamaClient.messages := OllamaClient.messages oc
                        @ [\<lparr>OllamaMessage.Role = UserRole, OllamaMessage.Content = message\<rparr>,
                           \<lparr>OllamaMessage.Role = AssistantRole,
                            OllamaMessage.Content = reply\<rparr>]\<rparr>,
                    reply, ollama_io.Since io, None)))"
  (is "(?three \<longrightarrow> ?hello) \<and> (?script \<longrightarrow> ?general)")
proof (intro conjI impI)
  assume a: ?three
  then have "ollama_receive (Decoder io (http_Response.Body resp)) [] = Some (''Hello'', None)"
    by (simp add: json_NewDecoder_Received Decoder_Decode_message_frame ollama_receive_more
          ollama_receive_Done)
  then show ?hello
    using a marshal post status by (simp add: OllamaClient_SendMessage_def Let_def)
next
  assume b: ?script
  then have "ollama_receive (Decoder io (http_Response.Body resp)) []
      = Some (concat (map (\<lambda>f. OllamaMessage.Content (OllamaResponse.Message f))
                          (fs @ last_frame)), None)"
    by (auto simp: ollama_receive_frames ollama_receive_EOF ollama_receive_Done)
  then show ?general
    using marshal post status by (simp add: OllamaClient_SendMessage_def Let_def)
qed

theorem ollama_stream_reassembly_witness:
  "OllamaClient_SendMessage
     (scripted_ollama
        (json_NewDecoder go_json
           (Received (message_frame ''Hel'' False) ## Received (message_frame ''lo'' False)
              ## Received (message_frame '''' True) ## sconst (Failed io_EOF))))
     ready_ollama ''hi'' =
     Some (ready_ollama\<lparr>OllamaClient.messages := OllamaClient.messages ready_ollama
              @ [\<lparr>OllamaMessage.Role = UserRole, OllamaMessage.Content = ''hi''\<rparr>,
                 \<lparr>OllamaMessage.Role = AssistantRole, OllamaMessage.Content = ''Hello''\<rparr>]\<rparr>,
           ''Hello'', 1500, None)
   \<and> OllamaClient_SendMessage
        (scripted_ollama (ollama_frame ''Hel'' False ## Failed io_EOF ## sconst (Failed io_EOF)))
        ready_ollama ''hi'' =
     Some (ready_ollama\<lparr>OllamaClient.messages := OllamaClient.messages ready_ollama
              @ [\<lparr>OllamaMessage.Role = UserRole, OllamaMessage.Content = ''hi''\<rparr>,
                 \<lparr>OllamaMessage.Role = AssistantRole, OllamaMessage.Content = ''Hel''\<rparr>]\<rparr>,
           ''Hel'', 1500, None)
   \<and> OllamaClient_SendMessage
        (scripted_ollama (ollama_frame ''Hel'' False ## ollama_frame ''lo'' True
                           ## sconst (ollama_frame ''!'' False)))
        ready_ollama ''hi'' =
     Some (ready_ollama\<lparr>OllamaClient.messages := OllamaClient.messages ready_ollama
              @ [\<lparr>OllamaMessage.Role = UserRole, OllamaMessage.Content = ''hi''\<rparr>,
                 \<lparr>OllamaMessage.Role = AssistantRole, OllamaMessage.Content = ''Hello''\<rparr>]\<rparr>,
           ''Hello'', 1500, None)"
proof -
  let ?hello = "json_NewDecoder go_json
                  (Received (message_frame ''Hel'' False) ## Received (message_frame ''lo'' False)
                     ## Received (message_frame '''' True) ## sconst (Failed io_EOF))"
  let ?f = "\<lparr>OllamaResponse.Message =
               \<lparr>OllamaMessage.Role = AssistantRole, OllamaMessage.Content = ''Hel''\<rparr>,
             Done = False\<rparr>"
  let ?d = "\<lparr>OllamaResponse.Message =
               \<lparr>OllamaMessage.Role = AssistantRole, OllamaMessage.Content = ''lo''\<rparr>,
             Done = True\<rparr>"
  let ?short = "ollama_frame ''Hel'' False ## Failed io_EOF ## sconst (Failed io_EOF)"
  let ?flagged = "ollama_frame ''Hel'' False ## ollama_frame ''lo'' True
                    ## sconst (ollama_frame ''!'' False)"
  have m: "ollama_io.Marshal (scripted_ollama frames)
             \<lparr>OllamaRequest.Model = OllamaClient.selectedModel ready_ollama,
              OllamaRequest.Messages = OllamaClient.messages ready_ollama
                 @ [\<lparr>OllamaMessage.Role = UserRole, OllamaMessage.Content = ''hi''\<rparr>],
              OllamaRequest.Stream = True\<rparr> = Inr ''{}''" for frames
    by (simp add: scripted_ollama_def)
  have p: "Post (scripted_ollama frames) (serverURL ready_ollama @ ''/api/chat'') ''{}''
             = Inr \<lparr>StatusCode = 200, http_Response.Body = ''ndjson''\<rparr>" for frames
    by (simp add: scripted_ollama_def)
  have s: "StatusCode \<lparr>StatusCode = 200, http_Response.Body = ''ndjson''\<rparr> = 200"
    by simp
  have "OllamaClient_SendMessage (scripted_ollama ?hello) ready_ollama ''hi'' =
     Some (ready_ollama\<lparr>OllamaClient.messages := OllamaClient.messages ready_ollama
              @ [\<lparr>OllamaMessage.Role = UserRole, OllamaMessage.Content = ''hi''\<rparr>,
                 \<lparr>OllamaMessage.Role = AssistantRole, OllamaMessage.Content = ''Hello''\<rparr>]\<rparr>,
           ''Hello'', 1500, None)"
    using ollama_stream_reassembly [OF m [of ?hello] p [of ?hello] s,
        where lib = go_json and rest\<^sub>0 = "sconst (Failed io_EOF)"]
    by (simp add: scripted_ollama_def)
  moreover have "OllamaClient_SendMessage (scripted_ollama ?short) ready_ollama ''hi'' =
     Some (ready_ollama\<lparr>OllamaClient.messages := OllamaClient.messages ready_ollama
              @ [\<lparr>OllamaMessage.Role = UserRole, OllamaMessage.Content = ''hi''\<rparr>,
                 \<lparr>OllamaMessage.Role = AssistantRole, OllamaMessage.Content = ''Hel''\<rparr>]\<rparr>,
           ''Hel'', 1500, None)"
    using ollama_stream_reassembly [OF m [of ?short] p [of ?short] s,
        where fs = "[?f]" and rest = "sconst (Failed io_EOF)" and last_frame = "[]"]
    by (simp add: scripted_ollama_def ollama_frame_def Let_def)
  moreover have "OllamaClient_SendMessage (scripted_ollama ?flagged) ready_ollama ''hi'' =
     Some (ready_ollama\<lparr>OllamaClient.messages := OllamaClient.messages ready_ollama
              @ [\<lparr>OllamaMessage.Role = UserRole, OllamaMessage.Content = ''hi''\<rparr>,
                 \<lparr>OllamaMessage.Role = AssistantRole, OllamaMessage.Content = ''Hello''\<rparr>]\<rparr>,
           ''Hello'', 1500, None)"
    using ollama_stream_reassembly [OF m [of ?flagged] p [of ?flagged] s,
        where fs = "[?f]" and d = ?d and rest = "sconst (ollama_frame ''!'' False)"
          and last_frame = "[?d]"]
    by (simp add: scripted_ollama_def ollama_frame_def Let_def)
  ultimately show ?thesis by simp
qed

text \<open>
  The claim as first stated fails: its three frames carry the fragment as a member
  \<^verbatim>\<open>content\<close> of the frame itself, which selects no field of
  \<^verbatim>\<open>OllamaResponse\<close>.  Each frame is decoded with an empty \<^verbatim>\<open>Message.Content\<close>,
  the third ends the loop, and \<^verbatim>\<open>SendMessage\<close> returns the empty text with a nil
  error and appends an assistant message without content.
\<close>

theorem ollama_top_level_content_counterexample:
  "OllamaClient_SendMessage
     (scripted_ollama
        (json_NewDecoder go_json
           (Received (content_frame ''Hel'' False) ## Received (content_frame ''lo'' False)
              ## Received (content_frame '''' True) ## sconst (Failed io_EOF))))
     ready_ollama ''hi'' =
     Some (ready_ollama\<lparr>OllamaClient.messages := OllamaClient.messages ready_ollama
              @ [\<lparr>OllamaMessage.Role = UserRole, OllamaMessage.Content = ''hi''\<rparr>,
                 \<lparr>OllamaMessage.Role = AssistantRole, OllamaMessage.Content = ''''\<rparr>]\<rparr>,
           '''', 1500, None)
   \<and> content_frame ''Hel'' False
       = json_object [(''content'', json_string ''Hel''), (''done'', json_bool False)]"
proof -
  have "ollama_receive
          (json_NewDecoder go_json
             (Received (content_frame ''Hel'' False) ## Received (content_frame ''lo'' False)
                ## Received (content_frame '''' True) ## sconst (Failed io_EOF))) []
        = Some ('''', None)"
    by (simp add: json_NewDecoder_Received Decoder_Decode_content_frame ollama_receive_more
          ollama_receive_Done)
  then show ?thesis
    by (simp add: OllamaClient_SendMessage_def scripted_ollama_def content_frame_def Let_def)
qed

subsection \<open>Initialization of the Ollama adapter\<close>

lemma Getenv_restrict:
  "k \<in> K \<Longrightarrow> Getenv (env |` K) k = Getenv env k"
  by (simp add: Getenv_def)

text \<open>
  Claim C8.  \<^verbatim>\<open>Initialize\<close> of the Ollama adapter sets the endpoint to
  \<open>http://localhost:11434\<close> when \<^verbatim>\<open>OLLAMA_URL\<close> is unset; it returns an error exactly
  when the probe \<^verbatim>\<open>Get\<close> of that endpoint fails to connect or answers with a status
  other than 200; its result depends on no variable of the environment but
  \<^verbatim>\<open>OLLAMA_URL\<close> and \<^verbatim>\<open>OLLAMA_MODEL\<close>, and the factory calls it without a
  credential check.
\<close>

theorem ollama_initialize_probe:
  "(env ''OLLAMA_URL'' = None \<longrightarrow>
      serverURL (fst (OllamaClient_Initialize env Get oc)) = ''http://localhost:11434'')
   \<and> (snd (OllamaClient_Initialize env Get oc) \<noteq> None \<longleftrightarrow>
        (case Get (serverURL (fst (OllamaClient_Initialize env Get oc))) of
           Inl err \<Rightarrow> True
         | Inr resp \<Rightarrow> StatusCode resp \<noteq> 200))
   \<and> OllamaClient_Initialize env Get oc
        = OllamaClient_Initialize (env |` {''OLLAMA_URL'', ''OLLAMA_MODEL''}) Get oc
   \<and> CreateChatClient sys ProviderOllama =
        (case OllamaClient_Initialize (Environ sys) (http_Get sys) new_OllamaClient of
           (c, Some err) \<Rightarrow> Inl err
         | (c, None) \<Rightarrow> Inr (Ollama c))"
proof (intro conjI impI)
  assume "env ''OLLAMA_URL'' = None"
  then show "serverURL (fst (OllamaClient_Initialize env Get oc)) = ''http://localhost:11434''"
    by (simp add: OllamaClient_Initialize_def Getenv_def Let_def split: sum.split)
next
  show "snd (OllamaClient_Initialize env Get oc) \<noteq> None \<longleftrightarrow>
        (case Get (serverURL (fst (OllamaClient_Initialize env Get oc))) of
           Inl err \<Rightarrow> True
         | Inr resp \<Rightarrow> StatusCode resp \<noteq> 200)"
    by (simp add: OllamaClient_Initialize_def Let_def split: sum.split)
next
  show "OllamaClient_Initialize env Get oc
        = OllamaClient_Initialize (env |` {''OLLAMA_URL'', ''OLLAMA_MODEL''}) Get oc"
    by (simp add: OllamaClient_Initialize_def Getenv_restrict)
next
  show "CreateChatClient sys ProviderOllama =
        (case OllamaClient_Initialize (Environ sys) (http_Get sys) new_OllamaClient of
           (c, Some err) \<Rightarrow> Inl err
         | (c, None) \<Rightarrow> Inr (Ollama c))"
    by (simp add: CreateChatClient_def initialized_def ProviderOllama_def ProviderTogether_def
        ProviderGroq_def ProviderSamba_def ProviderOpenAI_def ProviderGemini_def)
qed

theorem ollama_initialize_probe_witness:
  "Map.empty ''OLLAMA_URL'' = (None :: string option)
   \<and> serverURL (fst (OllamaClient_Initialize Map.empty
          (probe_answers ''http://localhost:11434'' 200) new_OllamaClient))
        = ''http://localhost:11434''
   \<and> snd (OllamaClient_Initialize Map.empty
          (probe_answers ''http://localhost:11434'' 200) new_OllamaClient) = None
   \<and> snd (OllamaClient_Initialize Map.empty
          (probe_answers ''http://localhost:11434'' 503) new_OllamaClient)
        = Some (Errorf ''ollama server at http://localhost:11434 returned status 503'')
   \<and> snd (OllamaClient_Initialize [''OLLAMA_URL'' \<mapsto> ''http://10.0.0.5:11434'']
          (probe_answers ''http://localhost:11434'' 200) new_OllamaClient)
        = Some (Errorf ''could not connect to Ollama server at http://10.0.0.5:11434: connection refused'')"
proof -
  note t = ollama_initialize_probe [of Map.empty "probe_answers ''http://localhost:11434'' 200"
      new_OllamaClient]
  have unset: "Map.empty ''OLLAMA_URL'' = (None :: string option)"
    by simp
  have url: "serverURL (fst (OllamaClient_Initialize Map.empty
          (probe_answers ''http://localhost:11434'' 200) new_OllamaClient))
        = ''http://localhost:11434''"
    using t unset by blast
  have ok: "snd (OllamaClient_Initialize Map.empty
          (probe_answers ''http://localhost:11434'' 200) new_OllamaClient) = None"
    using t url by (simp add: probe_answers_def)
  have e503: "snd (OllamaClient_Initialize Map.empty
          (probe_answers ''http://localhost:11434'' 503) new_OllamaClient)
        = Some (Errorf ''ollama server at http://localhost:11434 returned status 503'')"
    by (simp add: OllamaClient_Initialize_def Getenv_def index_def ollamaModels_def Let_def
        probe_answers_def itoa_def utoa.simps)
  have refused: "snd (OllamaClient_Initialize [''OLLAMA_URL'' \<mapsto> ''http://10.0.0.5:11434'']
          (probe_answers ''http://localhost:11434'' 200) new_OllamaClient)
        = Some (Errorf ''could not connect to Ollama server at http://10.0.0.5:11434: connection refused'')"
    by (simp add: OllamaClient_Initialize_def Getenv_def index_def ollamaModels_def Let_def
        probe_answers_def)
  from unset url ok e503 refused show ?thesis by blast
qed

subsection \<open>The delta streams of the OpenAI, Groq and Together adapters\<close>

lemma stream_receive_more:
  "stream_receive (Received response ## s) acc
     = stream_receive s (acc @ delta_text [response])"
  by (subst stream_receive.simps) (simp add: delta_text_def elem_def)

lemma delta_text_Cons: "delta_text (r # rs) = delta_text [r] @ delta_text rs"
  by (simp add: delta_text_def)

lemma stream_receive_events:
  "stream_receive (map Received events @- s) acc = stream_receive s (acc @ delta_text events)"
proof (induction events arbitrary: acc)
  case Nil
  then show ?case by (simp add: delta_text_def)
next
  case (Cons r rs)
  show ?case
    using Cons.IH [of "acc @ delta_text [r]"]
    by (simp add: stream_receive_more delta_text_Cons [of r rs])
qed

lemma stream_receive_end:
  "err = io_EOF \<or> Contains (Error err) ''EOF'' \<Longrightarrow>
   stream_receive (Failed err ## s) acc = Some (Returns (acc, None))"
  by (subst stream_receive.simps) auto

lemma stream_receive_abort:
  "err \<noteq> io_EOF \<Longrightarrow> \<not> Contains (Error err) ''EOF'' \<Longrightarrow>
   stream_receive (Failed err ## s) acc
     = Some (Returns (acc, Some (Errorf (''stream error: '' @ Error err))))"
  by (subst stream_receive.simps) auto

lemma stream_receive_returns:
  "stream_receive s acc = Some y \<Longrightarrow> \<exists>r. y = Returns r"
proof (induction rule: stream_receive.raw_induct [rotated 1, consumes 1])
  case (1 stream_receive' stream fullResponse y)
  then show ?case
    by (auto simp: elem_def split: received.splits if_splits execution.splits)
qed

lemma stream_receive_no_panic:
  "stream_receive s acc \<noteq> Some (Panics p)"
  using stream_receive_returns [of s acc "Panics p"] by auto

lemma stream_receive_script:
  "stream_receive (map Received events @- (Failed err ## rest)) [] =
     Some (Returns (delta_text events,
                    if err = io_EOF \<or> Contains (Error err) ''EOF'' then None
                    else Some (Errorf (''stream error: '' @ Error err))))"
  by (simp add: stream_receive_events stream_receive_end stream_receive_abort)

lemma OpenAIClient_SendMessage_stream:
  assumes "CreateChatCompletionStream io (OpenAIClient.client oc)
             (openai_request (OpenAIClient.selectedModel oc)
                (OpenAIClient.messages oc @ [openai_message UserRole message])) = Inr stream"
  shows "OpenAIClient_SendMessage io oc message =
    (case stream_receive stream [] of
       None \<Rightarrow> None
     | Some (Panics p) \<Rightarrow> Some (Panics p)
     | Some (Returns (partial, Some err)) \<Rightarrow>
         Some (Returns (oc\<lparr>OpenAIClient.messages :=
                            OpenAIClient.messages oc @ [openai_message UserRole message]\<rparr>,
                        partial, openai_io.Since io, Some err))
     | Some (Returns (final, None)) \<Rightarrow>
         Some (Returns (oc\<lparr>OpenAIClient.messages :=
                            OpenAIClient.messages oc @ [openai_message UserRole message,
                                                        openai_message AssistantRole final]\<rparr>,
                        final, openai_io.Since io, None)))"
  using assms
  by (simp add: OpenAIClient_SendMessage_def Let_def
           split: option.split execution.split prod.split)

lemma GroqClient_SendMessage_stream:
  assumes "CreateChatCompletionStream io (GroqClient.client g)
             (openai_request (GroqClient.selectedModel g)
                (GroqClient.messages g @ [openai_message UserRole message])) = Inr stream"
  shows "GroqClient_SendMessage io g message =
    (case stream_receive stream [] of
       None \<Rightarrow> None
     | Some (Panics p) \<Rightarrow> Some (Panics p)
     | Some (Returns (partial, Some err)) \<Rightarrow>
         Some (Returns (g\<lparr>GroqClient.messages :=
                            GroqClient.messages g @ [openai_message UserRole message]\<rparr>,
                        partial, openai_io.Since io, Some err))
     | Some (Returns (final, None)) \<Rightarrow>
         Some (Returns (g\<lparr>GroqClient.messages :=
                            GroqClient.messages g @ [openai_message UserRole message,
                                                     openai_message AssistantRole final]\<rparr>,
                        final, openai_io.Since io, None)))"
  using assms
  by (simp add: GroqClient_SendMessage_def Let_def
           split: option.split execution.split prod.split)

lemma TogetherClient_SendMessage_stream:
  assumes "CreateChatCompletionStream io (TogetherClient.client t)
             (openai_request (TogetherClient.selectedModel t)
                (TogetherClient.messages t @ [openai_message UserRole message])) = Inr stream"
  shows "TogetherClient_SendMessage io t message =
    (case stream_receive stream [] of
       None \<Rightarrow> None
     | Some (Panics p) \<Rightarrow> Some (Panics p)
     | Some (Returns (partial, Some err)) \<Rightarrow>
         Some (Returns (t\<lparr>TogetherClient.messages :=
                            TogetherClient.messages t @ [openai_message UserRole message]\<rparr>,
                        partial, openai_io.Since io, Some err))
     | Some (Returns (final, None)) \<Rightarrow>
         Some (Returns (t\<lparr>TogetherClient.messages :=
                            TogetherClient.messages t @ [openai_message UserRole message,
                                                         openai_message AssistantRole final]\<rparr>,
                        final, openai_io.Since io, None)))"
  using assms
  by (simp add: TogetherClient_SendMessage_def Let_def
           split: option.split execution.split prod.split)

lemma OpenAIClient_SendMessage_no_panic:
  "OpenAIClient_SendMessage io oc message \<noteq> Some (Panics p)"
  by (auto simp: OpenAIClient_SendMessage_def Let_def stream_receive_no_panic
           split: sum.splits option.splits execution.splits prod.splits)

lemma GroqClient_SendMessage_no_panic:
  "GroqClient_SendMessage io g message \<noteq> Some (Panics p)"
  by (auto simp: GroqClient_SendMessage_def Let_def stream_receive_no_panic
           split: sum.splits option.splits execution.splits prod.splits)

lemma TogetherClient_SendMessage_no_panic:
  "TogetherClient_SendMessage io t message \<noteq> Some (Panics p)"
  by (auto simp: TogetherClient_SendMessage_def Let_def stream_receive_no_panic
           split: sum.splits option.splits execution.splits prod.splits)

text \<open>
  Claim C9, as amended.  For the OpenAI, Groq and Together adapters, let the stream deliver
  the events \<open>events\<close> and then fail with \<open>err\<close>.  An event without choices adds
  nothing and the loop goes on: the text is the delta content of the first choice of
  exactly the events that have a choice, in order.  If \<open>err\<close> is \<^verbatim>\<open>io.EOF\<close> or an
  error whose text contains \<open>EOF\<close>, the loop ends normally: the method returns the text
  with a nil error and appends the user message and the assistant message.  On any other
  error the method returns the text so far with the wrapped error, and only the user
  message is appended.  No execution of the three methods panics: the loop never indexes
  an empty list of choices.
\<close>

theorem delta_stream_reassembly:
  "(CreateChatCompletionStream io (OpenAIClient.client oc)
       (openai_request (OpenAIClient.selectedModel oc)
          (OpenAIClient.messages oc @ [openai_message UserRole message]))
      = Inr (map Received events @- (Failed err ## rest))
    \<longrightarrow> OpenAIClient_SendMessage io oc message =
         Some (Returns
           (if err = io_EOF \<or> Contains (Error err) ''EOF''
            then (oc\<lparr>OpenAIClient.messages := OpenAIClient.messages oc
                       @ [openai_message UserRole message,
                          openai_message AssistantRole (delta_text events)]\<rparr>,
                  delta_text events, openai_io.Since io, None)
            else (oc\<lparr>OpenAIClient.messages := OpenAIClient.messages oc
                       @ [openai_message UserRole message]\<rparr>,
                  delta_text events, openai_io.Since io,
                  Some (Errorf (''stream error: '' @ Error err))))))
   \<and> (CreateChatCompletionStream io (GroqClient.client g)
       (openai_request (GroqClient.selectedModel g)
          (GroqClient.messages g @ [openai_message UserRole message]))
      = Inr (map Received events @- (Failed err ## rest))
    \<longrightarrow> GroqClient_SendMessage io g message =
         Some (Returns
           (if err = io_EOF \<or> Contains (Error err) ''EOF''
            then (g\<lparr>GroqClient.messages := GroqClient.messages g
                       @ [openai_message UserRole message,
                          openai_message AssistantRole (delta_text events)]\<rparr>,
                  delta_text events, openai_io.Since io, None)
            else (g\<lparr>GroqClient.messages := GroqClient.messages g
                       @ [openai_message UserRole message]\<rparr>,
                  delta_text events, openai_io.Since io,
                  Some (Errorf (''stream error: '' @ Error err))))))
   \<and> (CreateChatCompletionStream io (TogetherClient.client t)
       (openai_request (TogetherClient.selectedModel t)
          (TogetherClient.messages t @ [openai_message UserRole message]))
      = Inr (map Received events @- (Failed err ## rest))
    \<longrightarrow> TogetherClient_SendMessage io t message =
         Some (Returns
           (if err = io_EOF \<or> Contains (Error err) ''EOF''
            then (t\<lparr>TogetherClient.messages := TogetherClient.messages t
                       @ [openai_message UserRole message,
                          openai_message AssistantRole (delta_text events)]\<rparr>,
                  delta_text events, openai_io.Since io, None)
            else (t\<lparr>TogetherClient.messages := TogetherClient.messages t
                       @ [openai_message UserRole message]\<rparr>,
                  delta_text events, openai_io.Since io,
                  Some (Errorf (''stream error: '' @ Error err))))))
   \<and> OpenAIClient_SendMessage io oc message \<noteq> Some (Panics p)
   \<and> GroqClient_SendMessage io g message \<noteq> Some (Panics p)
   \<and> TogetherClient_SendMessage io t message \<noteq> Some (Panics p)"
proof (intro conjI impI)
  assume "CreateChatCompletionStream io (OpenAIClient.client oc)
       (openai_request (OpenAIClient.selectedModel oc)
          (OpenAIClient.messages oc @ [openai_message UserRole message]))
      = Inr (map Received events @- (Failed err ## rest))"
  from OpenAIClient_SendMessage_stream [OF this]
  show "OpenAIClient_SendMessage io oc message =
         Some (Returns
           (if err = io_EOF \<or> Contains (Error err) ''EOF''
            then (oc\<lparr>OpenAIClient.messages := OpenAIClient.messages oc
                       @ [openai_message UserRole message,
                          openai_message AssistantRole (delta_text events)]\<rparr>,
                  delta_text events, openai_io.Since io, None)
            else (oc\<lparr>OpenAIClient.messages := OpenAIClient.messages oc
                       @ [openai_message UserRole message]\<rparr>,
                  delta_text events, openai_io.Since io,
                  Some (Errorf (''stream error: '' @ Error err)))))"
    by (simp add: stream_receive_script)
next
  assume "CreateChatCompletionStream io (GroqClient.client g)
       (openai_request (GroqClient.selectedModel g)
          (GroqClient.messages g @ [openai_message UserRole message]))
      = Inr (map Received events @- (Failed err ## rest))"
  from GroqClient_SendMessage_stream [OF this]
  show "GroqClient_SendMessage io g message =
         Some (Returns
           (if err = io_EOF \<or> Contains (Error err) ''EOF''
            then (g\<lparr>GroqClient.messages := GroqClient.messages g
                       @ [openai_message UserRole message,
                          openai_message AssistantRole (delta_text events)]\<rparr>,
                  delta_text events, openai_io.Since io, None)
            else (g\<lparr>GroqClient.messages := GroqClient.messages g
                       @ [openai_message UserRole message]\<rparr>,
                  delta_text events, openai_io.Since io,
                  Some (Errorf (''stream error: '' @ Error err)))))"
    by (simp add: stream_receive_script)
next
  assume "CreateChatCompletionStream io (TogetherClient.client t)
       (openai_request (TogetherClient.selectedModel t)
          (TogetherClient.messages t @ [openai_message UserRole message]))
      = Inr (map Received events @- (Failed err ## rest))"
  from TogetherClient_SendMessage_stream [OF this]
  show "TogetherClient_SendMessage io t message =
         Some (Returns
           (if err = io_EOF \<or> Contains (Error err) ''EOF''
            then (t\<lparr>TogetherClient.messages := TogetherClient.messages t
                       @ [openai_message UserRole message,
                          openai_message AssistantRole (delta_text events)]\<rparr>,
                  delta_text events, openai_io.Since io, None)
            else (t\<lparr>TogetherClient.messages := TogetherClient.messages t
                       @ [openai_message UserRole message]\<rparr>,
                  delta_text events, openai_io.Since io,
                  Some (Errorf (''stream error: '' @ Error err)))))"
    by (simp add: stream_receive_script)
qed (rule OpenAIClient_SendMessage_no_panic GroqClient_SendMessage_no_panic
       TogetherClient_SendMessage_no_panic)+

text \<open>
  The claim as first stated fails: a receive error other than \<^verbatim>\<open>io.EOF\<close> whose text
  contains \<open>EOF\<close> does not abort the exchange.
\<close>

theorem delta_stream_unexpected_EOF_counterexample:
  "Errorf ''unexpected EOF'' \<noteq> io_EOF
   \<and> GroqClient_SendMessage
        (scripted_openai (delta_event ''Hi'' ## Failed (Errorf ''unexpected EOF'')
                           ## sconst (Failed io_EOF)))
        ready_groq ''hi''
      = Some (Returns
          (ready_groq\<lparr>GroqClient.messages := GroqClient.messages ready_groq
             @ [openai_message UserRole ''hi'', openai_message AssistantRole ''Hi'']\<rparr>,
           ''Hi'', 1500, None))"
proof -
  have "stream_receive (delta_event ''Hi'' ## Failed (Errorf ''unexpected EOF'')
                           ## sconst (Failed io_EOF)) []
        = Some (Returns (''Hi'', None))"
    unfolding delta_event_def
    by (simp add: stream_receive_more stream_receive_end delta_text_def)
  then show ?thesis
    by (simp add: GroqClient_SendMessage_def scripted_openai_def Let_def)
qed

theorem delta_stream_reassembly_witness:
  "OpenAIClient_SendMessage
      (scripted_openai (delta_event ''Hel'' ## empty_event ## delta_event ''lo''
                          ## Failed io_EOF ## sconst (Failed io_EOF)))
      ready_openai ''hi''
     = Some (Returns
         (ready_openai\<lparr>OpenAIClient.messages := OpenAIClient.messages ready_openai
            @ [openai_message UserRole ''hi'', openai_message AssistantRole ''Hello'']\<rparr>,
          ''Hello'', 1500, None))
   \<and> GroqClient_SendMessage
      (scripted_openai (delta_event ''Hel'' ## empty_event ## delta_event ''lo''
                          ## Failed io_EOF ## sconst (Failed io_EOF)))
      ready_groq ''hi''
     = Some (Returns
         (ready_groq\<lparr>GroqClient.messages := GroqClient.messages ready_groq
            @ [openai_message UserRole ''hi'', openai_message AssistantRole ''Hello'']\<rparr>,
          ''Hello'', 1500, None))
   \<and> TogetherClient_SendMessage
      (scripted_openai (delta_event ''Hel'' ## empty_event ## delta_event ''lo''
                          ## Failed io_EOF ## sconst (Failed io_EOF)))
      ready_together ''hi''
     = Some (Returns
         (ready_together\<lparr>TogetherClient.messages := TogetherClient.messages ready_together
            @ [openai_message UserRole ''hi'', openai_message AssistantRole ''Hello'']\<rparr>,
          ''Hello'', 1500, None))
   \<and> GroqClient_SendMessage
      (scripted_openai (delta_event ''Hel'' ## empty_event
                          ## Failed (Errorf ''connection reset by peer'')
                          ## sconst (Failed io_EOF)))
      ready_groq ''hi''
     = Some (Returns
         (ready_groq\<lparr>GroqClient.messages := GroqClient.messages ready_groq
            @ [openai_message UserRole ''hi'']\<rparr>,
          ''Hel'', 1500, Some (Errorf ''stream error: connection reset by peer'')))"
proof -
  let ?hel = "\<lparr>openai_ChatCompletionStreamResponse.Choices =
                [\<lparr>Delta = \<lparr>openai_ChatCompletionStreamChoiceDelta.Content = ''Hel''\<rparr>\<rparr>]\<rparr>"
  let ?none = "\<lparr>openai_ChatCompletionStreamResponse.Choices = []\<rparr>"
  let ?lo = "\<lparr>openai_ChatCompletionStreamResponse.Choices =
                [\<lparr>Delta = \<lparr>openai_ChatCompletionStreamChoiceDelta.Content = ''lo''\<rparr>\<rparr>]\<rparr>"
  let ?script = "delta_event ''Hel'' ## empty_event ## delta_event ''lo''
                   ## Failed io_EOF ## sconst (Failed io_EOF)"
  let ?broken = "delta_event ''Hel'' ## empty_event ## Failed (Errorf ''connection reset by peer'')
                   ## sconst (Failed io_EOF)"
  have carried: "delta_text [?hel, ?none, ?lo] = ''Hello''" "delta_text [?hel, ?none] = ''Hel''"
    by (simp_all add: delta_text_def)
  have reset: "\<not> Contains ''connection reset by peer'' ''EOF''"
    by simp
  note whole = delta_stream_reassembly [where io = "scripted_openai ?script"
      and oc = ready_openai and g = ready_groq and t = ready_together and message = "''hi''"
      and events = "[?hel, ?none, ?lo]" and err = io_EOF and rest = "sconst (Failed io_EOF)"]
  note part = delta_stream_reassembly [where io = "scripted_openai ?broken"
      and g = ready_groq and message = "''hi''"
      and events = "[?hel, ?none]" and err = "Errorf ''connection reset by peer''"
      and rest = "sconst (Failed io_EOF)"]
  show ?thesis
    using whole part carried reset
    by (simp add: scripted_openai_def delta_event_def empty_event_def)
qed

subsection \<open>The Gemini iterator, and the methods in terms of their loops\<close>

lemma write_parts_text:
  "write_parts parts acc =
     (case parts_text parts of
        None \<Rightarrow> Panics interface_conversion
      | Some chunk \<Rightarrow> Returns (acc @ chunk))"
  by (induction parts acc rule: write_parts.induct) (auto split: option.splits)

lemma gemini_receive_more:
  "candidate_text resp = Some chunk \<Longrightarrow>
   gemini_receive (Received resp ## s) acc = gemini_receive s (acc @ chunk)"
  by (subst gemini_receive.simps)
     (auto simp: candidate_text_def elem_def write_parts_text split: list.splits option.splits)

lemma gemini_receive_responses:
  "list_all2 (\<lambda>resp chunk. candidate_text resp = Some chunk) responses chunks \<Longrightarrow>
   gemini_receive (map Received responses @- s) acc = gemini_receive s (acc @ concat chunks)"
proof (induction responses chunks arbitrary: acc rule: list_all2_induct)
  case Nil
  then show ?case by simp
next
  case (Cons resp chunk responses chunks)
  then show ?case by (simp add: gemini_receive_more)
qed


lemma gemini_receive_Failed:
  "err \<noteq> iterator_Done \<Longrightarrow>
   gemini_receive (Failed err ## s) acc
     = Some (Returns (acc, Some (Errorf (''stream error: '' @ Error err))))"
  by (subst gemini_receive.simps) simp

lemma GeminiClient_SendMessage_stream:
  assumes "SendMessageStream io (model g) (GeminiClient.messages g) message = iter"
  shows "GeminiClient_SendMessage io g message =
    (case gemini_receive iter [] of
       None \<Rightarrow> None
     | Some (Panics p) \<Rightarrow> Some (Panics p)
     | Some (Returns (partial, Some err)) \<Rightarrow>
         Some (Returns (g\<lparr>GeminiClient.messages :=
                            GeminiClient.messages g @ [genai_message ''user'' message]\<rparr>,
                        partial, gemini_io.Since io, Some err))
     | Some (Returns (final, None)) \<Rightarrow>
         Some (Returns (g\<lparr>GeminiClient.messages :=
                            GeminiClient.messages g @ [genai_message ''user'' message,
                                                       genai_message ''assistant'' final]\<rparr>,
                        final, gemini_io.Since io, None)))"
  using assms
  by (cases "GeminiClient.messages g")
     (simp_all add: GeminiClient_SendMessage_def Let_def
        split: option.split execution.split prod.split)

lemma OllamaClient_SendMessage_stream:
  assumes "ollama_io.Marshal io
             \<lparr>OllamaRequest.Model = OllamaClient.selectedModel oc,
              OllamaRequest.Messages = OllamaClient.messages oc @ [ollama_message UserRole message],
              OllamaRequest.Stream = True\<rparr> = Inr reqData"
      and "Post io (serverURL oc @ ''/api/chat'') reqData = Inr resp"
      and "StatusCode resp = 200"
  shows "OllamaClient_SendMessage io oc message =
    (case ollama_receive (Decoder io (http_Response.Body resp)) [] of
       None \<Rightarrow> None
     | Some (partial, Some err) \<Rightarrow>
         Some (oc\<lparr>OllamaClient.messages :=
                    OllamaClient.messages oc @ [ollama_message UserRole message]\<rparr>,
               partial, ollama_io.Since io, Some err)
     | Some (final, None) \<Rightarrow>
         Some (oc\<lparr>OllamaClient.messages :=
                    OllamaClient.messages oc @ [ollama_message UserRole message,
                                                ollama_message AssistantRole final]\<rparr>,
               final, ollama_io.Since io, None))"
  using assms
  by (simp add: OllamaClient_SendMessage_def Let_def split: option.split prod.split)

subsection \<open>A stream interrupted after partial text\<close>

text \<open>
  Claim C1, as amended.  For each of the five streaming adapters, let the stream deliver
  some fragments and then fail with an error the adapter does not take for the end of the
  stream (Ollama: any error but \<^verbatim>\<open>io.EOF\<close>, before a frame with the completion flag;
  OpenAI, Groq, Together: an error that is not \<^verbatim>\<open>io.EOF\<close> and whose text does not
  contain \<open>EOF\<close>; Gemini: any error but \<^verbatim>\<open>iterator.Done\<close>, after responses the loop
  can read).  Then \<^verbatim>\<open>SendMessage\<close> returns exactly the text accumulated so far and a
  non-nil error, and the conversation state afterwards is the state before the call
  followed by the user message of the failed turn: no assistant message is appended, the
  user message stays.
\<close>

theorem interrupted_stream_keeps_user_message:
  "(ollama_io.Marshal io\<^sub>1
       \<lparr>OllamaRequest.Model = OllamaClient.selectedModel oc\<^sub>1,
        OllamaRequest.Messages = OllamaClient.messages oc\<^sub>1 @ [ollama_message UserRole message],
        OllamaRequest.Stream = True\<rparr> = Inr reqData
     \<and> Post io\<^sub>1 (serverURL oc\<^sub>1 @ ''/api/chat'') reqData = Inr resp
     \<and> StatusCode resp = 200
     \<and> Decoder io\<^sub>1 (http_Response.Body resp) = map Received frames @- (Failed err ## rest\<^sub>1)
     \<and> (\<forall>f\<in>set frames. \<not> Done f) \<and> err \<noteq> io_EOF
    \<longrightarrow> OllamaClient_SendMessage io\<^sub>1 oc\<^sub>1 message =
         Some (oc\<^sub>1\<lparr>OllamaClient.messages :=
                    OllamaClient.messages oc\<^sub>1 @ [ollama_message UserRole message]\<rparr>,
               concat (map (\<lambda>f. OllamaMessage.Content (OllamaResponse.Message f)) frames),
               ollama_io.Since io\<^sub>1,
               Some (Errorf (''failed to decode response: '' @ Error err))))
   \<and> (CreateChatCompletionStream io\<^sub>2 (OpenAIClient.client oc\<^sub>2)
        (openai_request (OpenAIClient.selectedModel oc\<^sub>2)
           (OpenAIClient.messages oc\<^sub>2 @ [openai_message UserRole message]))
       = Inr (map Received events @- (Failed err ## rest\<^sub>2))
     \<and> err \<noteq> io_EOF \<and> \<not> Contains (Error err) ''EOF''
    \<longrightarrow> OpenAIClient_SendMessage io\<^sub>2 oc\<^sub>2 message =
         Some (Returns
           (oc\<^sub>2\<lparr>OpenAIClient.messages :=
                  OpenAIClient.messages oc\<^sub>2 @ [openai_message UserRole message]\<rparr>,
            delta_text events, openai_io.Since io\<^sub>2,
            Some (Errorf (''stream error: '' @ Error err)))))
   \<and> (CreateChatCompletionStream io\<^sub>2 (GroqClient.client g\<^sub>3)
        (openai_request (GroqClient.selectedModel g\<^sub>3)
           (GroqClient.messages g\<^sub>3 @ [openai_message UserRole message]))
       = Inr (map Received events @- (Failed err ## rest\<^sub>2))
     \<and> err \<noteq> io_EOF \<and> \<not> Contains (Error err) ''EOF''
    \<longrightarrow> GroqClient_SendMessage io\<^sub>2 g\<^sub>3 message =
         Some (Returns
           (g\<^sub>3\<lparr>GroqClient.messages :=
                  GroqClient.messages g\<^sub>3 @ [openai_message UserRole message]\<rparr>,
            delta_text events, openai_io.Since io\<^sub>2,
            Some (Errorf (''stream error: '' @ Error err)))))
   \<and> (CreateChatCompletionStream io\<^sub>2 (TogetherClient.client t\<^sub>4)
        (openai_request (TogetherClient.selectedModel t\<^sub>4)
           (TogetherClient.messages t\<^sub>4 @ [openai_message UserRole message]))
       = Inr (map Received events @- (Failed err ## rest\<^sub>2))
     \<and> err \<noteq> io_EOF \<and> \<not> Contains (Error err) ''EOF''
    \<longrightarrow> TogetherClient_SendMessage io\<^sub>2 t\<^sub>4 message =
         Some (Returns
           (t\<^sub>4\<lparr>TogetherClient.messages :=
                  TogetherClient.messages t\<^sub>4 @ [openai_message UserRole message]\<rparr>,
            delta_text events, openai_io.Since io\<^sub>2,
            Some (Errorf (''stream error: '' @ Error err)))))
   \<and> (SendMessageStream io\<^sub>5 (model g\<^sub>5) (GeminiClient.messages g\<^sub>5) message
       = map Received responses @- (Failed err ## rest\<^sub>5)
     \<and> list_all2 (\<lambda>resp chunk. candidate_text resp = Some chunk) responses chunks
     \<and> err \<noteq> iterator_Done
    \<longrightarrow> GeminiClient_SendMessage io\<^sub>5 g\<^sub>5 message =
         Some (Returns
           (g\<^sub>5\<lparr>GeminiClient.messages :=
                  GeminiClient.messages g\<^sub>5 @ [genai_message ''user'' message]\<rparr>,
            concat chunks, gemini_io.Since io\<^sub>5,
            Some (Errorf (''stream error: '' @ Error err)))))"
  (is "(?ollama \<longrightarrow> ?O) \<and> (?openai \<longrightarrow> ?A) \<and> (?groq \<longrightarrow> ?G) \<and> (?together \<longrightarrow> ?T)
        \<and> (?gemini \<longrightarrow> ?M)")
proof (intro conjI impI)
  assume h: ?ollama
  then have "ollama_receive (Decoder io\<^sub>1 (http_Response.Body resp)) []
      = Some (concat (map (\<lambda>f. OllamaMessage.Content (OllamaResponse.Message f)) frames),
              Some (Errorf (''failed to decode response: '' @ Error err)))"
    by (simp add: ollama_receive_frames ollama_receive_Failed)
  with h show ?O
    by (simp add: OllamaClient_SendMessage_stream [of io\<^sub>1 oc\<^sub>1 message reqData resp])
next
  assume h: ?openai
  then show ?A
    by (simp add: OpenAIClient_SendMessage_stream
          [of io\<^sub>2 oc\<^sub>2 message "map Received events @- (Failed err ## rest\<^sub>2)"]
          stream_receive_script)
next
  assume h: ?groq
  then show ?G
    by (simp add: GroqClient_SendMessage_stream
          [of io\<^sub>2 g\<^sub>3 message "map Received events @- (Failed err ## rest\<^sub>2)"]
          stream_receive_script)
next
  assume h: ?together
  then show ?T
    by (simp add: TogetherClient_SendMessage_stream
          [of io\<^sub>2 t\<^sub>4 message "map Received events @- (Failed err ## rest\<^sub>2)"]
          stream_receive_script)
next
  assume h: ?gemini
  then have "gemini_receive (map Received responses @- (Failed err ## rest\<^sub>5)) []
      = Some (Returns (concat chunks, Some (Errorf (''stream error: '' @ Error err))))"
    by (simp add: gemini_receive_responses [of responses chunks] gemini_receive_Failed)
  with h show ?M
    by (simp add: GeminiClient_SendMessage_stream
          [of io\<^sub>5 g\<^sub>5 message "map Received responses @- (Failed err ## rest\<^sub>5)"])
qed

text \<open>
  The claim as first stated fails: after an interrupted Ollama stream the state is one
  message longer than before the call, and a Groq stream interrupted by an error whose
  text contains \<open>EOF\<close> returns a nil error and appends the truncated reply.
\<close>

theorem interrupted_stream_counterexample:
  "OllamaClient_SendMessage
      (scripted_ollama (ollama_frame ''Hel'' False ## Failed (Errorf ''unexpected EOF'')
                          ## sconst (Failed io_EOF)))
      ready_ollama ''hi''
     = Some (ready_ollama\<lparr>OllamaClient.messages :=
                OllamaClient.messages ready_ollama @ [ollama_message UserRole ''hi'']\<rparr>,
             ''Hel'', 1500, Some (Errorf ''failed to decode response: unexpected EOF''))
   \<and> length (OllamaClient.messages ready_ollama) = 1
   \<and> length (OllamaClient.messages
         (ready_ollama\<lparr>OllamaClient.messages :=
            OllamaClient.messages ready_ollama @ [ollama_message UserRole ''hi'']\<rparr>)) = 2
   \<and> GroqClient_SendMessage
        (scripted_openai (delta_event ''Hel'' ## Failed (Errorf ''unexpected EOF'')
                           ## sconst (Failed io_EOF)))
        ready_groq ''hi''
      = Some (Returns
          (ready_groq\<lparr>GroqClient.messages := GroqClient.messages ready_groq
             @ [openai_message UserRole ''hi'', openai_message AssistantRole ''Hel'']\<rparr>,
           ''Hel'', 1500, None))"
proof -
  have "ollama_receive (ollama_frame ''Hel'' False ## Failed (Errorf ''unexpected EOF'')
                          ## sconst (Failed io_EOF)) []
        = Some (''Hel'', Some (Errorf ''failed to decode response: unexpected EOF''))"
    by (simp add: ollama_frame_def ollama_receive_more ollama_receive_Failed)
  moreover have "stream_receive (delta_event ''Hel'' ## Failed (Errorf ''unexpected EOF'')
                           ## sconst (Failed io_EOF)) []
        = Some (Returns (''Hel'', None))"
    unfolding delta_event_def
    by (simp add: stream_receive_more stream_receive_end delta_text_def)
  ultimately show ?thesis
    by (simp add: OllamaClient_SendMessage_def GroqClient_SendMessage_def scripted_ollama_def
          scripted_openai_def ready_ollama_def Let_def)
qed

theorem interrupted_stream_keeps_user_message_witness:
  "OllamaClient_SendMessage
      (scripted_ollama (ollama_frame ''Hel'' False ## Failed (Errorf ''unexpected EOF'')
                          ## sconst (Failed io_EOF)))
      ready_ollama ''hi''
     = Some (ready_ollama\<lparr>OllamaClient.messages :=
                OllamaClient.messages ready_ollama @ [ollama_message UserRole ''hi'']\<rparr>,
             ''Hel'', 1500, Some (Errorf ''failed to decode response: unexpected EOF''))
   \<and> OpenAIClient_SendMessage
        (scripted_openai (delta_event ''Hel'' ## Failed (Errorf ''connection reset by peer'')
                           ## sconst (Failed io_EOF)))
        ready_openai ''hi''
      = Some (Returns
          (ready_openai\<lparr>OpenAIClient.messages := OpenAIClient.messages ready_openai
             @ [openai_message UserRole ''hi'']\<rparr>,
           ''Hel'', 1500, Some (Errorf ''stream error: connection reset by peer'')))
   \<and> GroqClient_SendMessage
        (scripted_openai (delta_event ''Hel'' ## Failed (Errorf ''connection reset by peer'')
                           ## sconst (Failed io_EOF)))
        ready_groq ''hi''
      = Some (Returns
          (ready_groq\<lparr>GroqClient.messages := GroqClient.messages ready_groq
             @ [openai_message UserRole ''hi'']\<rparr>,
           ''Hel'', 1500, Some (Errorf ''stream error: connection reset by peer'')))
   \<and> TogetherClient_SendMessage
        (scripted_openai (delta_event ''Hel'' ## Failed (Errorf ''connection reset by peer'')
                           ## sconst (Failed io_EOF)))
        ready_together ''hi''
      = Some (Returns
          (ready_together\<lparr>TogetherClient.messages := TogetherClient.messages ready_together
             @ [openai_message UserRole ''hi'']\<rparr>,
           ''Hel'', 1500, Some (Errorf ''stream error: connection reset by peer'')))
   \<and> GeminiClient_SendMessage
        (scripted_gemini (Received (text_response [''He'', ''l''])
                           ## Failed (Errorf ''connection reset by peer'')
                           ## sconst (Failed iterator_Done)))
        ready_gemini ''hi''
      = Some (Returns
          (ready_gemini\<lparr>GeminiClient.messages := GeminiClient.messages ready_gemini
             @ [genai_message ''user'' ''hi'']\<rparr>,
           ''Hel'', 1500, Some (Errorf ''stream error: connection reset by peer'')))"
proof -
  let ?f = "\<lparr>OllamaResponse.Message = ollama_message AssistantRole ''Hel'', Done = False\<rparr>"
  let ?e = "\<lparr>openai_ChatCompletionStreamResponse.Choices =
                [\<lparr>Delta = \<lparr>openai_ChatCompletionStreamChoiceDelta.Content = ''Hel''\<rparr>\<rparr>]\<rparr>"
  let ?reset = "Errorf ''connection reset by peer''"
  let ?io\<^sub>1 = "scripted_ollama (ollama_frame ''Hel'' False ## Failed (Errorf ''unexpected EOF'')
                          ## sconst (Failed io_EOF))"
  let ?io\<^sub>2 = "scripted_openai (delta_event ''Hel'' ## Failed ?reset ## sconst (Failed io_EOF))"
  let ?io\<^sub>5 = "scripted_gemini (Received (text_response [''He'', ''l''])
                           ## Failed ?reset ## sconst (Failed iterator_Done))"
  have no_EOF: "\<not> Contains (Error ?reset) ''EOF''"
    by simp
  have chunk: "candidate_text (text_response [''He'', ''l'']) = Some ''Hel''"
    by (simp add: candidate_text_def text_response_def)
  have carried: "delta_text [?e] = ''Hel''"
    by (simp add: delta_text_def)
  note ollama = interrupted_stream_keeps_user_message
      [where io\<^sub>1 = ?io\<^sub>1 and oc\<^sub>1 = ready_ollama and message = "''hi''" and reqData = "''{}''"
         and resp = "\<lparr>StatusCode = 200, http_Response.Body = ''ndjson''\<rparr>"
         and frames = "[?f]" and err = "Errorf ''unexpected EOF''"
         and rest\<^sub>1 = "sconst (Failed io_EOF)"]
  note sdk = interrupted_stream_keeps_user_message
      [where io\<^sub>2 = ?io\<^sub>2 and oc\<^sub>2 = ready_openai and g\<^sub>3 = ready_groq and t\<^sub>4 = ready_together
         and message = "''hi''" and events = "[?e]" and err = ?reset
         and rest\<^sub>2 = "sconst (Failed io_EOF)"
         and io\<^sub>5 = ?io\<^sub>5 and g\<^sub>5 = ready_gemini
         and responses = "[text_response [''He'', ''l'']]" and chunks = "[''Hel'']"
         and rest\<^sub>5 = "sconst (Failed iterator_Done)"]
  have 1: "OllamaClient_SendMessage ?io\<^sub>1 ready_ollama ''hi''
     = Some (ready_ollama\<lparr>OllamaClient.messages :=
                OllamaClient.messages ready_ollama @ [ollama_message UserRole ''hi'']\<rparr>,
             ''Hel'', 1500, Some (Errorf ''failed to decode response: unexpected EOF''))"
    using ollama by (simp add: scripted_ollama_def ollama_frame_def)
  show ?thesis
    using 1 sdk no_EOF chunk carried
    by (simp add: scripted_openai_def scripted_gemini_def delta_event_def)
qed

subsection \<open>The single-shot exchange of the SambaNova adapter\<close>

text \<open>
  Claim C10.  \<^verbatim>\<open>SendMessage\<close> of the SambaNova adapter never changes the persistent
  state when it returns an error; every error return carries the empty text and the zero
  duration.  The state changes only on a return with a nil error and a non-empty text, and
  then to the old history followed by the user message and the assistant message.  Each
  failure path is such an error return: a failure to marshal the request, to build the
  HTTP request, to send it (reported as a timeout when the context's deadline has passed),
  a status other than 200 (so every non-2xx status), and a failure to decode the body.
\<close>

theorem samba_send_atomic:
  "(case SambaClient_SendMessage io s message of
      (s', text, elapsed, err) \<Rightarrow>
        (err \<noteq> None \<longrightarrow> s' = s \<and> text = [] \<and> elapsed = 0)
        \<and> (s' \<noteq> s \<longrightarrow>
             err = None \<and> text \<noteq> []
             \<and> s' = s\<lparr>SambaClient.messages := SambaClient.messages s
                       @ [samba_message UserRole message, samba_message AssistantRole text]\<rparr>))
   \<and> (samba_io.Marshal io (samba_request s message) = Inl e \<longrightarrow>
        SambaClient_SendMessage io s message
          = (s, [], 0, Some (Errorf (''failed to marshal request: '' @ Error e))))
   \<and> (samba_io.Marshal io (samba_request s message) = Inr requestBody
       \<and> NewRequestWithContext io ''POST'' (baseURL s @ ''/chat/completions'') requestBody = Inl e \<longrightarrow>
        SambaClient_SendMessage io s message
          = (s, [], 0, Some (Errorf (''failed to create request: '' @ Error e))))
   \<and> (samba_io.Marshal io (samba_request s message) = Inr requestBody
       \<and> NewRequestWithContext io ''POST'' (baseURL s @ ''/chat/completions'') requestBody
           = Inr httpReq
       \<and> Do io (samba_headers s httpReq) = Inl e \<longrightarrow>
        SambaClient_SendMessage io s message
          = (s, [], 0,
             Some (if ctx_Err io = Some context_DeadlineExceeded
                   then Errorf ''request timed out after 90s''
                   else Errorf (''failed to send request: '' @ Error e))))
   \<and> (samba_io.Marshal io (samba_request s message) = Inr requestBody
       \<and> NewRequestWithContext io ''POST'' (baseURL s @ ''/chat/completions'') requestBody
           = Inr httpReq
       \<and> Do io (samba_headers s httpReq) = Inr resp
       \<and> StatusCode resp \<noteq> 200 \<longrightarrow>
        SambaClient_SendMessage io s message
          = (s, [], 0,
             Some (Errorf (''API request failed ('' @ itoa (StatusCode resp) @ ''): ''
                           @ http_Response.Body resp))))
   \<and> (samba_io.Marshal io (samba_request s message) = Inr requestBody
       \<and> NewRequestWithContext io ''POST'' (baseURL s @ ''/chat/completions'') requestBody
           = Inr httpReq
       \<and> Do io (samba_headers s httpReq) = Inr resp
       \<and> StatusCode resp = 200
       \<and> Unmarshal io (http_Response.Body resp) = Inl e \<longrightarrow>
        SambaClient_SendMessage io s message
          = (s, [], 0, Some (Errorf (''failed to decode response: '' @ Error e))))"
  by (intro conjI impI) (auto simp: SambaClient_SendMessage_def Let_def split: sum.splits)

theorem samba_send_atomic_witness:
  "SambaClient_SendMessage
      ((scripted_samba 200 [''Hello''])
         \<lparr>samba_io.Marshal := (\<lambda>req. Inl (Errorf ''json: unsupported value''))\<rparr>)
      ready_samba ''hi''
     = (ready_samba, [], 0, Some (Errorf ''failed to marshal request: json: unsupported value''))
   \<and> SambaClient_SendMessage
      ((scripted_samba 200 [''Hello''])
         \<lparr>NewRequestWithContext := (\<lambda>method url body. Inl (Errorf ''net/http: nil Context''))\<rparr>)
      ready_samba ''hi''
     = (ready_samba, [], 0, Some (Errorf ''failed to create request: net/http: nil Context''))
   \<and> SambaClient_SendMessage (unreachable_samba (Some context_DeadlineExceeded)) ready_samba ''hi''
     = (ready_samba, [], 0, Some (Errorf ''request timed out after 90s''))
   \<and> SambaClient_SendMessage (unreachable_samba None) ready_samba ''hi''
     = (ready_samba, [], 0, Some (Errorf ''failed to send request: dial tcp: i/o timeout''))
   \<and> SambaClient_SendMessage (scripted_samba 500 []) ready_samba ''hi''
     = (ready_samba, [], 0, Some (Errorf ''API request failed (500): {}''))
   \<and> SambaClient_SendMessage
      ((scripted_samba 200 [''Hello''])
         \<lparr>Unmarshal := (\<lambda>body. Inl (Errorf ''unexpected end of JSON input''))\<rparr>)
      ready_samba ''hi''
     = (ready_samba, [], 0,
        Some (Errorf ''failed to decode response: unexpected end of JSON input''))
   \<and> SambaClient_SendMessage (scripted_samba 200 [''Hello'']) ready_samba ''hi''
     = (ready_samba\<lparr>SambaClient.messages :=
          [samba_message UserRole ''hi'', samba_message AssistantRole ''Hello'']\<rparr>,
        ''Hello'', 1500, None)"
proof -
  let ?httpReq = "\<lparr>Method = ''POST'', URL = ''https://api.sambanova.ai/v1/chat/completions'',
                   Header = [], http_Request.Body = ''{}''\<rparr>"
  let ?ok = "\<lparr>StatusCode = 200, http_Response.Body = ''{}''\<rparr>"
  let ?no_marshal = "(scripted_samba 200 [''Hello''])
         \<lparr>samba_io.Marshal := (\<lambda>req. Inl (Errorf ''json: unsupported value''))\<rparr>"
  let ?no_request = "(scripted_samba 200 [''Hello''])
         \<lparr>NewRequestWithContext := (\<lambda>method url body. Inl (Errorf ''net/http: nil Context''))\<rparr>"
  let ?no_decode = "(scripted_samba 200 [''Hello''])
         \<lparr>Unmarshal := (\<lambda>body. Inl (Errorf ''unexpected end of JSON input''))\<rparr>"
  note marshal = samba_send_atomic [where io = ?no_marshal
      and s = ready_samba and message = "''hi''" and e = "Errorf ''json: unsupported value''"]
  note request = samba_send_atomic [where io = ?no_request
      and s = ready_samba and message = "''hi''" and requestBody = "''{}''"
      and e = "Errorf ''net/http: nil Context''"]
  note timeout = samba_send_atomic [where io = "unreachable_samba (Some context_DeadlineExceeded)"
      and s = ready_samba and message = "''hi''" and requestBody = "''{}''"
      and httpReq = ?httpReq and e = "Errorf ''dial tcp: i/o timeout''"]
  note refused = samba_send_atomic [where io = "unreachable_samba None"
      and s = ready_samba and message = "''hi''" and requestBody = "''{}''"
      and httpReq = ?httpReq and e = "Errorf ''dial tcp: i/o timeout''"]
  note status = samba_send_atomic [where io = "scripted_samba 500 []"
      and s = ready_samba and message = "''hi''" and requestBody = "''{}''"
      and httpReq = ?httpReq
      and resp = "\<lparr>StatusCode = 500, http_Response.Body = ''{}''\<rparr>"]
  note decode = samba_send_atomic [where io = ?no_decode
      and s = ready_samba and message = "''hi''" and requestBody = "''{}''"
      and httpReq = ?httpReq and resp = ?ok
      and e = "Errorf ''unexpected end of JSON input''"]
  note commit = samba_send_atomic [where io = "scripted_samba 200 [''Hello'']"
      and s = ready_samba and message = "''hi''"]
  have 1: "SambaClient_SendMessage ?no_marshal ready_samba ''hi''
     = (ready_samba, [], 0, Some (Errorf ''failed to marshal request: json: unsupported value''))"
    using marshal by (simp add: scripted_samba_def)
  have 2: "SambaClient_SendMessage ?no_request ready_samba ''hi''
     = (ready_samba, [], 0, Some (Errorf ''failed to create request: net/http: nil Context''))"
    using request by (simp add: scripted_samba_def)
  have 3: "SambaClient_SendMessage (unreachable_samba (Some context_DeadlineExceeded))
             ready_samba ''hi''
     = (ready_samba, [], 0, Some (Errorf ''request timed out after 90s''))"
    using timeout by (simp add: unreachable_samba_def scripted_samba_def ready_samba_def)
  have 4: "SambaClient_SendMessage (unreachable_samba None) ready_samba ''hi''
     = (ready_samba, [], 0, Some (Errorf ''failed to send request: dial tcp: i/o timeout''))"
    using refused by (simp add: unreachable_samba_def scripted_samba_def ready_samba_def)
  have 5: "SambaClient_SendMessage (scripted_samba 500 []) ready_samba ''hi''
     = (ready_samba, [], 0, Some (Errorf ''API request failed (500): {}''))"
    using status
    by (simp add: scripted_samba_def ready_samba_def itoa_def utoa.simps)
  have 6: "SambaClient_SendMessage ?no_decode ready_samba ''hi''
     = (ready_samba, [], 0,
        Some (Errorf ''failed to decode response: unexpected end of JSON input''))"
    using decode by (simp add: scripted_samba_def ready_samba_def)
  have 7: "SambaClient_SendMessage (scripted_samba 200 [''Hello'']) ready_samba ''hi''
     = (ready_samba\<lparr>SambaClient.messages :=
          [samba_message UserRole ''hi'', samba_message AssistantRole ''Hello'']\<rparr>,
        ''Hello'', 1500, None)"
    using commit
    by (simp add: SambaClient_SendMessage_def scripted_samba_def ready_samba_def Let_def)
  from 1 2 3 4 5 6 7 show ?thesis by simp
qed

text \<open>
  Claim C5, as amended.  When the request is sent and answered with status 200, and the
  decoded body has no choices or a first choice with empty content, \<^verbatim>\<open>SendMessage\<close> of
  the SambaNova adapter returns the empty text, the elapsed duration and a nil error, and
  leaves the state as it was.
\<close>

theorem samba_empty_success:
  "samba_io.Marshal io (samba_request s message) = Inr requestBody
   \<and> NewRequestWithContext io ''POST'' (baseURL s @ ''/chat/completions'') requestBody
       = Inr httpReq
   \<and> Do io (samba_headers s httpReq) = Inr resp
   \<and> StatusCode resp = 200
   \<and> Unmarshal io (http_Response.Body resp) = Inr completionResp
   \<and> (ChatCompletionResponse.Choices completionResp = []
       \<or> (\<exists>first others.
             ChatCompletionResponse.Choices completionResp = first # others
             \<and> ChatCompletionResponse_Message.Content
                   (ChatCompletionResponse_Choice.Message first) = []))
   \<longrightarrow> SambaClient_SendMessage io s message = (s, [], samba_io.Since io, None)"
  by (auto simp: SambaClient_SendMessage_def Let_def)

theorem samba_empty_success_witness:
  "SambaClient_SendMessage (scripted_samba 200 []) ready_samba ''hi''
     = (ready_samba, [], 1500, None)
   \<and> SambaClient_SendMessage (scripted_samba 200 ['''', ''second'']) ready_samba ''hi''
     = (ready_samba, [], 1500, None)"
proof -
  let ?httpReq = "\<lparr>Method = ''POST'', URL = ''https://api.sambanova.ai/v1/chat/completions'',
                   Header = [], http_Request.Body = ''{}''\<rparr>"
  let ?resp = "\<lparr>StatusCode = 200, http_Response.Body = ''{}''\<rparr>"
  note none = samba_empty_success [where io = "scripted_samba 200 []"
      and s = ready_samba and message = "''hi''" and requestBody = "''{}''"
      and httpReq = ?httpReq and resp = ?resp
      and completionResp = "\<lparr>ChatCompletionResponse.Choices = []\<rparr>"]
  note blank = samba_empty_success [where io = "scripted_samba 200 ['''', ''second'']"
      and s = ready_samba and message = "''hi''" and requestBody = "''{}''"
      and httpReq = ?httpReq and resp = ?resp
      and completionResp = "\<lparr>ChatCompletionResponse.Choices =
          [\<lparr>ChatCompletionResponse_Choice.Message =
              \<lparr>ChatCompletionResponse_Message.Content = ''''\<rparr>\<rparr>,
           \<lparr>ChatCompletionResponse_Choice.Message =
              \<lparr>ChatCompletionResponse_Message.Content = ''second''\<rparr>\<rparr>]\<rparr>"]
  have 1: "SambaClient_SendMessage (scripted_samba 200 []) ready_samba ''hi''
     = (ready_samba, [], 1500, None)"
    using none by (simp add: scripted_samba_def ready_samba_def)
  have 2: "SambaClient_SendMessage (scripted_samba 200 ['''', ''second'']) ready_samba ''hi''
     = (ready_samba, [], 1500, None)"
    using blank by (simp add: scripted_samba_def ready_samba_def)
  from 1 2 show ?thesis by simp
qed

text \<open>
  The claim as first stated speaks of every 2xx response.  The adapter accepts status 200
  only: a 201 response without choices is an error return.
\<close>

theorem samba_empty_created_counterexample:
  "(200 \<le> (201 :: int) \<and> (201 :: int) < 300)
   \<and> SambaClient_SendMessage (scripted_samba 201 []) ready_samba ''hi''
     = (ready_samba, [], 0, Some (Errorf ''API request failed (201): {}''))"
  by (simp add: SambaClient_SendMessage_def scripted_samba_def ready_samba_def Let_def
        itoa_def utoa.simps)

subsection \<open>Histories after a session\<close>












lemma candidate_text_response [simp]:
  "candidate_text (text_response chunks) = Some (concat chunks)"
proof -
  have "parts_text (map Text chunks) = Some (concat chunks)"
    by (induction chunks) simp_all
  then show ?thesis
    by (simp add: candidate_text_def text_response_def)
qed



section \<open>Properties of initialization and of the factory\<close>

subsection \<open>The client factory\<close>

lemmas Provider_defs =
  ProviderTogether_def ProviderOllama_def ProviderGroq_def ProviderSamba_def
  ProviderOpenAI_def ProviderGemini_def

lemma GroqClient_Initialize_keyed:
  "Getenv env ''GROQ_API_KEY'' \<noteq> [] \<Longrightarrow> snd (GroqClient_Initialize env g) = None"
  by (simp add: GroqClient_Initialize_def Let_def)

lemma TogetherClient_Initialize_keyed:
  "Getenv env ''TOGETHER_API_KEY'' \<noteq> [] \<Longrightarrow> snd (TogetherClient_Initialize env t) = None"
  by (simp add: TogetherClient_Initialize_def Let_def)

lemma SambaClient_Initialize_keyed:
  "Getenv env ''SAMBA_API_KEY'' \<noteq> [] \<Longrightarrow> snd (SambaClient_Initialize env s) = None"
  by (simp add: SambaClient_Initialize_def Let_def)

lemma OpenAIClient_Initialize_keyed:
  "Getenv env ''OPENAI_API_KEY'' \<noteq> [] \<Longrightarrow>
   snd (OpenAIClient_Initialize u env oc) =
     (if ValidateAPIKey u (Getenv env ''OPENAI_API_KEY'') ''openai'' then None
      else Some (Errorf ''OPENAI_API_KEY appears invalid''))"
  by (simp add: OpenAIClient_Initialize_def Let_def)

lemma GeminiClient_Initialize_keyed:
  "Getenv env ''GEMINI_API_KEY'' \<noteq> [] \<Longrightarrow>
   snd (GeminiClient_Initialize NewClient env g) =
     (case NewClient (Getenv env ''GEMINI_API_KEY'') of
        Inl err \<Rightarrow> Some (Errorf (''failed to create Gemini client: '' @ Error err))
      | Inr handle \<Rightarrow> None)"
  by (simp add: GeminiClient_Initialize_def Let_def split: sum.split)

lemma initialized_fst:
  "initialized wrap r = (case snd r of Some err \<Rightarrow> Inl err | None \<Rightarrow> Inr (wrap (fst r)))"
  by (cases r) (simp add: initialized_def split: option.split)

text \<open>
  Claim C7, as amended.  For a provider name outside the six supported names the factory
  returns the error \<open>unsupported provider\<close> and no client.  For a supported name it
  returns either an error and no client, or the adapter of that name, initialized: the
  error when a required credential is absent or \<^verbatim>\<open>Initialize\<close> fails (an OpenAI key
  that does not validate, the Gemini constructor, the Ollama probe), the adapter in every
  other case.
\<close>

theorem factory_selects_adapter:
  "(provider \<notin> {ProviderTogether, ProviderOllama, ProviderGroq, ProviderSamba, ProviderOpenAI,
                 ProviderGemini}
      \<longrightarrow> CreateChatClient sys provider = Inl (Errorf (''unsupported provider: '' @ provider)))
   \<and> CreateChatClient sys ProviderTogether =
       (if Getenv (Environ sys) ''TOGETHER_API_KEY'' = []
        then Inl (Errorf ''TOGETHER_API_KEY not set for Together provider'')
        else Inr (Together (fst (TogetherClient_Initialize (Environ sys) new_TogetherClient))))
   \<and> CreateChatClient sys ProviderGroq =
       (if Getenv (Environ sys) ''GROQ_API_KEY'' = []
        then Inl (Errorf ''GROQ_API_KEY not set for Groq provider'')
        else Inr (Groq (fst (GroqClient_Initialize (Environ sys) new_GroqClient))))
   \<and> CreateChatClient sys ProviderSamba =
       (if Getenv (Environ sys) ''SAMBA_API_KEY'' = []
        then Inl (Errorf ''SAMBA_API_KEY not set for Samba provider'')
        else Inr (Samba (fst (SambaClient_Initialize (Environ sys) new_SambaClient))))
   \<and> CreateChatClient sys ProviderOpenAI =
       (if Getenv (Environ sys) ''OPENAI_API_KEY'' = []
        then Inl (Errorf ''OPENAI_API_KEY not set for OpenAI provider'')
        else if ValidateAPIKey (Unicode sys) (Getenv (Environ sys) ''OPENAI_API_KEY'') ''openai''
        then Inr (OpenAI (fst (OpenAIClient_Initialize (Unicode sys) (Environ sys)
                                  new_OpenAIClient)))
        else Inl (Errorf ''OPENAI_API_KEY appears invalid''))
   \<and> CreateChatClient sys ProviderGemini =
       (if Getenv (Environ sys) ''GEMINI_API_KEY'' = []
        then Inl (Errorf ''GEMINI_API_KEY not set for Gemini provider'')
        else case genai_NewClient sys (Getenv (Environ sys) ''GEMINI_API_KEY'') of
               Inl err \<Rightarrow> Inl (Errorf (''failed to create Gemini client: '' @ Error err))
             | Inr handle \<Rightarrow>
                 Inr (Gemini (fst (GeminiClient_Initialize (genai_NewClient sys) (Environ sys)
                                     new_GeminiClient))))
   \<and> CreateChatClient sys ProviderOllama =
       (case snd (OllamaClient_Initialize (Environ sys) (http_Get sys) new_OllamaClient) of
          Some err \<Rightarrow> Inl err
        | None \<Rightarrow>
            Inr (Ollama (fst (OllamaClient_Initialize (Environ sys) (http_Get sys)
                                new_OllamaClient))))"
proof (intro conjI impI)
  assume "provider \<notin> {ProviderTogether, ProviderOllama, ProviderGroq, ProviderSamba,
                        ProviderOpenAI, ProviderGemini}"
  then show "CreateChatClient sys provider = Inl (Errorf (''unsupported provider: '' @ provider))"
    by (simp add: CreateChatClient_def)
next
  show "CreateChatClient sys ProviderTogether =
       (if Getenv (Environ sys) ''TOGETHER_API_KEY'' = []
        then Inl (Errorf ''TOGETHER_API_KEY not set for Together provider'')
        else Inr (Together (fst (TogetherClient_Initialize (Environ sys) new_TogetherClient))))"
    by (simp add: CreateChatClient_def initialized_fst TogetherClient_Initialize_keyed)
next
  show "CreateChatClient sys ProviderGroq =
       (if Getenv (Environ sys) ''GROQ_API_KEY'' = []
        then Inl (Errorf ''GROQ_API_KEY not set for Groq provider'')
        else Inr (Groq (fst (GroqClient_Initialize (Environ sys) new_GroqClient))))"
    by (simp add: CreateChatClient_def initialized_fst GroqClient_Initialize_keyed Provider_defs)
next
  show "CreateChatClient sys ProviderSamba =
       (if Getenv (Environ sys) ''SAMBA_API_KEY'' = []
        then Inl (Errorf ''SAMBA_API_KEY not set for Samba provider'')
        else Inr (Samba (fst (SambaClient_Initialize (Environ sys) new_SambaClient))))"
    by (simp add: CreateChatClient_def initialized_fst SambaClient_Initialize_keyed Provider_defs)
next
  show "CreateChatClient sys ProviderOpenAI =
       (if Getenv (Environ sys) ''OPENAI_API_KEY'' = []
        then Inl (Errorf ''OPENAI_API_KEY not set for OpenAI provider'')
        else if ValidateAPIKey (Unicode sys) (Getenv (Environ sys) ''OPENAI_API_KEY'') ''openai''
        then Inr (OpenAI (fst (OpenAIClient_Initialize (Unicode sys) (Environ sys)
                                  new_OpenAIClient)))
        else Inl (Errorf ''OPENAI_API_KEY appears invalid''))"
    by (simp add: CreateChatClient_def initialized_fst OpenAIClient_Initialize_keyed Provider_defs)
next
  show "CreateChatClient sys ProviderGemini =
       (if Getenv (Environ sys) ''GEMINI_API_KEY'' = []
        then Inl (Errorf ''GEMINI_API_KEY not set for Gemini provider'')
        else case genai_NewClient sys (Getenv (Environ sys) ''GEMINI_API_KEY'') of
               Inl err \<Rightarrow> Inl (Errorf (''failed to create Gemini client: '' @ Error err))
             | Inr handle \<Rightarrow>
                 Inr (Gemini (fst (GeminiClient_Initialize (genai_NewClient sys) (Environ sys)
                                     new_GeminiClient))))"
    by (simp add: CreateChatClient_def initialized_fst GeminiClient_Initialize_keyed Provider_defs
          split: sum.split)
next
  show "CreateChatClient sys ProviderOllama =
       (case snd (OllamaClient_Initialize (Environ sys) (http_Get sys) new_OllamaClient) of
          Some err \<Rightarrow> Inl err
        | None \<Rightarrow>
            Inr (Ollama (fst (OllamaClient_Initialize (Environ sys) (http_Get sys)
                                new_OllamaClient))))"
    by (simp add: CreateChatClient_def initialized_fst Provider_defs)
qed

theorem factory_selects_adapter_witness:
  "''mistral'' \<notin> {ProviderTogether, ProviderOllama, ProviderGroq, ProviderSamba, ProviderOpenAI,
                     ProviderGemini}
   \<and> CreateChatClient (offline Map.empty) ''mistral''
       = Inl (Errorf ''unsupported provider: mistral'')
   \<and> CreateChatClient (offline [''GROQ_API_KEY'' \<mapsto> ''gsk'']) ProviderGroq = Inr (Groq ready_groq)
   \<and> CreateChatClient (offline [''OPENAI_API_KEY'' \<mapsto> ''sk-0123456789abcdefghij''])
         ProviderOpenAI = Inr (OpenAI ready_openai)"
proof -
  have 1: "''mistral'' \<notin> {ProviderTogether, ProviderOllama, ProviderGroq, ProviderSamba,
                           ProviderOpenAI, ProviderGemini}"
    by (simp add: Provider_defs)
  note unknown = factory_selects_adapter [where provider = "''mistral''"
      and sys = "offline Map.empty"]
  from unknown 1 have 2: "CreateChatClient (offline Map.empty) ''mistral''
       = Inl (Errorf ''unsupported provider: mistral'')"
    by simp
  note groq = factory_selects_adapter [where sys = "offline [''GROQ_API_KEY'' \<mapsto> ''gsk'']"]
  have 3: "CreateChatClient (offline [''GROQ_API_KEY'' \<mapsto> ''gsk'']) ProviderGroq
       = Inr (Groq ready_groq)"
    using groq
    by (simp add: offline_def Getenv_def GroqClient_Initialize_def Let_def index_def
          groqModels_def new_GroqClient_def ready_groq_def openai_DefaultConfig_def)
  note openai = factory_selects_adapter
      [where sys = "offline [''OPENAI_API_KEY'' \<mapsto> ''sk-0123456789abcdefghij'']"]
  have valid: "ValidateAPIKey ascii_unicode ''sk-0123456789abcdefghij'' ''openai''"
    by (simp add: ValidateAPIKey_def ascii_unicode_def)
  have 4: "CreateChatClient (offline [''OPENAI_API_KEY'' \<mapsto> ''sk-0123456789abcdefghij''])
         ProviderOpenAI = Inr (OpenAI ready_openai)"
    using openai valid
    by (simp add: offline_def Getenv_def OpenAIClient_Initialize_def Let_def index_def
          openaiModels_def new_OpenAIClient_def ready_openai_def)
  from 1 2 3 4 show ?thesis by simp
qed

text \<open>
  The claim as first stated promises the adapter for every supported name.  For a supported
  name whose credential is absent the factory returns an error and no client.
\<close>

theorem factory_missing_key_counterexample:
  "ProviderGroq \<in> {ProviderTogether, ProviderOllama, ProviderGroq, ProviderSamba, ProviderOpenAI,
                    ProviderGemini}
   \<and> CreateChatClient (offline Map.empty) ProviderGroq
       = Inl (Errorf ''GROQ_API_KEY not set for Groq provider'')"
  by (simp add: CreateChatClient_def offline_def Getenv_def Provider_defs)

subsection \<open>Credential gating\<close>

lemma Getenv_other:
  "key \<noteq> var \<Longrightarrow> Getenv (env(var := v)) key = Getenv env key"
  by (simp add: Getenv_def)

text \<open>
  Claim C3, as amended.  For each of the five providers that require a credential:
  when the credential variable is absent (or empty), \<^verbatim>\<open>Initialize\<close> returns the
  missing-credential error and leaves the struct as it was (the SambaNova struct with its
  \<^verbatim>\<open>apiKey\<close> field set to the empty text): no client handle is created, the Gemini
  constructor is not called, and the factory returns an error without building the
  adapter.  With the credential present, \<^verbatim>\<open>Initialize\<close> of the Together, Groq and
  SambaNova adapters succeeds; that of the OpenAI adapter succeeds exactly when the key
  passes \<^verbatim>\<open>ValidateAPIKey\<close>; that of the Gemini adapter exactly when the SDK constructor
  does.  The value of the model-alias variable never changes the error returned.
\<close>

theorem credential_gating:
  "(Getenv env ''TOGETHER_API_KEY'' = [] \<longrightarrow>
      TogetherClient_Initialize env t
        = (t, Some (Errorf ''TOGETHER_API_KEY env var not set'')))
   \<and> (Getenv env ''GROQ_API_KEY'' = [] \<longrightarrow>
      GroqClient_Initialize env g = (g, Some (Errorf ''GROQ_API_KEY env var not set'')))
   \<and> (Getenv env ''SAMBA_API_KEY'' = [] \<longrightarrow>
      SambaClient_Initialize env s
        = (s\<lparr>apiKey := []\<rparr>, Some (Errorf ''SAMBA_API_KEY env var not set'')))
   \<and> (Getenv env ''OPENAI_API_KEY'' = [] \<longrightarrow>
      OpenAIClient_Initialize u env oc
        = (oc, Some (Errorf ''OPENAI_API_KEY env var not set'')))
   \<and> (Getenv env ''GEMINI_API_KEY'' = [] \<longrightarrow>
      GeminiClient_Initialize NewClient env gm
        = (gm, Some (Errorf ''GEMINI_API_KEY env var not set'')))
   \<and> (Getenv (Environ sys) ''TOGETHER_API_KEY'' = [] \<longrightarrow>
      CreateChatClient sys ProviderTogether
        = Inl (Errorf ''TOGETHER_API_KEY not set for Together provider''))
   \<and> (Getenv (Environ sys) ''GROQ_API_KEY'' = [] \<longrightarrow>
      CreateChatClient sys ProviderGroq = Inl (Errorf ''GROQ_API_KEY not set for Groq provider''))
   \<and> (Getenv (Environ sys) ''SAMBA_API_KEY'' = [] \<longrightarrow>
      CreateChatClient sys ProviderSamba
        = Inl (Errorf ''SAMBA_API_KEY not set for Samba provider''))
   \<and> (Getenv (Environ sys) ''OPENAI_API_KEY'' = [] \<longrightarrow>
      CreateChatClient sys ProviderOpenAI
        = Inl (Errorf ''OPENAI_API_KEY not set for OpenAI provider''))
   \<and> (Getenv (Environ sys) ''GEMINI_API_KEY'' = [] \<longrightarrow>
      CreateChatClient sys ProviderGemini
        = Inl (Errorf ''GEMINI_API_KEY not set for Gemini provider''))
   \<and> (Getenv env ''TOGETHER_API_KEY'' \<noteq> [] \<longrightarrow>
        snd (TogetherClient_Initialize env t) = None)
   \<and> (Getenv env ''GROQ_API_KEY'' \<noteq> [] \<longrightarrow> snd (GroqClient_Initialize env g) = None)
   \<and> (Getenv env ''SAMBA_API_KEY'' \<noteq> [] \<longrightarrow> snd (SambaClient_Initialize env s) = None)
   \<and> (Getenv env ''OPENAI_API_KEY'' \<noteq> [] \<longrightarrow>
        snd (OpenAIClient_Initialize u env oc) =
          (if ValidateAPIKey u (Getenv env ''OPENAI_API_KEY'') ''openai'' then None
           else Some (Errorf ''OPENAI_API_KEY appears invalid'')))
   \<and> (Getenv env ''GEMINI_API_KEY'' \<noteq> [] \<longrightarrow>
        snd (GeminiClient_Initialize NewClient env gm) =
          (case NewClient (Getenv env ''GEMINI_API_KEY'') of
             Inl err \<Rightarrow> Some (Errorf (''failed to create Gemini client: '' @ Error err))
           | Inr handle \<Rightarrow> None))
   \<and> snd (TogetherClient_Initialize (env(''TOGETHER_MODEL'' := setting)) t)
       = snd (TogetherClient_Initialize env t)
   \<and> snd (GroqClient_Initialize (env(''GROQ_MODEL'' := setting)) g)
       = snd (GroqClient_Initialize env g)
   \<and> snd (SambaClient_Initialize (env(''SAMBA_MODEL'' := setting)) s)
       = snd (SambaClient_Initialize env s)
   \<and> snd (OpenAIClient_Initialize u (env(''OPENAI_MODEL'' := setting)) oc)
       = snd (OpenAIClient_Initialize u env oc)
   \<and> snd (GeminiClient_Initialize NewClient (env(''GEMINI_MODEL'' := setting)) gm)
       = snd (GeminiClient_Initialize NewClient env gm)"
proof (intro conjI impI)
  show "snd (TogetherClient_Initialize (env(''TOGETHER_MODEL'' := setting)) t)
       = snd (TogetherClient_Initialize env t)"
    by (simp add: TogetherClient_Initialize_def Let_def Getenv_other)
  show "snd (GroqClient_Initialize (env(''GROQ_MODEL'' := setting)) g)
       = snd (GroqClient_Initialize env g)"
    by (simp add: GroqClient_Initialize_def Let_def Getenv_other)
  show "snd (SambaClient_Initialize (env(''SAMBA_MODEL'' := setting)) s)
       = snd (SambaClient_Initialize env s)"
    by (simp add: SambaClient_Initialize_def Let_def Getenv_other)
  show "snd (OpenAIClient_Initialize u (env(''OPENAI_MODEL'' := setting)) oc)
       = snd (OpenAIClient_Initialize u env oc)"
    by (simp add: OpenAIClient_Initialize_def Let_def Getenv_other)
  show "snd (GeminiClient_Initialize NewClient (env(''GEMINI_MODEL'' := setting)) gm)
       = snd (GeminiClient_Initialize NewClient env gm)"
    by (simp add: GeminiClient_Initialize_def Let_def Getenv_other split: sum.split)
next
  assume "Getenv (Environ sys) ''TOGETHER_API_KEY'' = []"
  then show "CreateChatClient sys ProviderTogether
        = Inl (Errorf ''TOGETHER_API_KEY not set for Together provider'')"
    by (simp add: CreateChatClient_def)
next
  assume "Getenv (Environ sys) ''GROQ_API_KEY'' = []"
  then show "CreateChatClient sys ProviderGroq
        = Inl (Errorf ''GROQ_API_KEY not set for Groq provider'')"
    by (simp add: CreateChatClient_def Provider_defs)
next
  assume "Getenv (Environ sys) ''SAMBA_API_KEY'' = []"
  then show "CreateChatClient sys ProviderSamba
        = Inl (Errorf ''SAMBA_API_KEY not set for Samba provider'')"
    by (simp add: CreateChatClient_def Provider_defs)
next
  assume "Getenv (Environ sys) ''OPENAI_API_KEY'' = []"
  then show "CreateChatClient sys ProviderOpenAI
        = Inl (Errorf ''OPENAI_API_KEY not set for OpenAI provider'')"
    by (simp add: CreateChatClient_def Provider_defs)
next
  assume "Getenv (Environ sys) ''GEMINI_API_KEY'' = []"
  then show "CreateChatClient sys ProviderGemini
        = Inl (Errorf ''GEMINI_API_KEY not set for Gemini provider'')"
    by (simp add: CreateChatClient_def Provider_defs)
qed (simp_all add: TogetherClient_Initialize_def GroqClient_Initialize_def
       SambaClient_Initialize_def OpenAIClient_Initialize_def GeminiClient_Initialize_def
       Let_def split: sum.split)

theorem credential_gating_witness:
  "TogetherClient_Initialize Map.empty new_TogetherClient
     = (new_TogetherClient, Some (Errorf ''TOGETHER_API_KEY env var not set''))
   \<and> GroqClient_Initialize Map.empty new_GroqClient
     = (new_GroqClient, Some (Errorf ''GROQ_API_KEY env var not set''))
   \<and> SambaClient_Initialize Map.empty new_SambaClient
     = (new_SambaClient, Some (Errorf ''SAMBA_API_KEY env var not set''))
   \<and> OpenAIClient_Initialize ascii_unicode Map.empty new_OpenAIClient
     = (new_OpenAIClient, Some (Errorf ''OPENAI_API_KEY env var not set''))
   \<and> GeminiClient_Initialize (\<lambda>key. Inr \<lparr>APIKey = key\<rparr>) Map.empty new_GeminiClient
     = (new_GeminiClient, Some (Errorf ''GEMINI_API_KEY env var not set''))
   \<and> CreateChatClient (offline Map.empty) ProviderTogether
     = Inl (Errorf ''TOGETHER_API_KEY not set for Together provider'')
   \<and> CreateChatClient (offline Map.empty) ProviderGroq
     = Inl (Errorf ''GROQ_API_KEY not set for Groq provider'')
   \<and> CreateChatClient (offline Map.empty) ProviderSamba
     = Inl (Errorf ''SAMBA_API_KEY not set for Samba provider'')
   \<and> CreateChatClient (offline Map.empty) ProviderOpenAI
     = Inl (Errorf ''OPENAI_API_KEY not set for OpenAI provider'')
   \<and> CreateChatClient (offline Map.empty) ProviderGemini
     = Inl (Errorf ''GEMINI_API_KEY not set for Gemini provider'')
   \<and> snd (TogetherClient_Initialize all_keys new_TogetherClient) = None
   \<and> snd (GroqClient_Initialize all_keys new_GroqClient) = None
   \<and> snd (SambaClient_Initialize all_keys new_SambaClient) = None
   \<and> snd (OpenAIClient_Initialize ascii_unicode all_keys new_OpenAIClient) = None
   \<and> snd (GeminiClient_Initialize (\<lambda>key. Inr \<lparr>APIKey = key\<rparr>) all_keys new_GeminiClient) = None
   \<and> snd (GroqClient_Initialize (all_keys(''GROQ_MODEL'' \<mapsto> ''no-such-model'')) new_GroqClient)
       = None"
proof -
  note missing = credential_gating [where env = Map.empty and sys = "offline Map.empty"
      and t = new_TogetherClient and g = new_GroqClient and s = new_SambaClient
      and u = ascii_unicode and oc = new_OpenAIClient
      and NewClient = "\<lambda>key. Inr \<lparr>APIKey = key\<rparr>" and gm = new_GeminiClient]
  note given = credential_gating [where env = all_keys
      and t = new_TogetherClient and g = new_GroqClient and s = new_SambaClient
      and u = ascii_unicode and oc = new_OpenAIClient
      and NewClient = "\<lambda>key. Inr \<lparr>APIKey = key\<rparr>" and gm = new_GeminiClient
      and setting = "Some ''no-such-model''"]
  have unset: "Getenv Map.empty key = []" for key
    by (simp add: Getenv_def)
  have sys: "Environ (offline Map.empty) = Map.empty"
    by (simp add: offline_def)
  have keys: "Getenv all_keys ''TOGETHER_API_KEY'' = ''tgt''"
    "Getenv all_keys ''GROQ_API_KEY'' = ''gsk''"
    "Getenv all_keys ''SAMBA_API_KEY'' = ''key''"
    "Getenv all_keys ''OPENAI_API_KEY'' = ''sk-0123456789abcdefghij''"
    "Getenv all_keys ''GEMINI_API_KEY'' = ''AIza''"
    by (simp_all add: Getenv_def all_keys_def)
  have valid: "ValidateAPIKey ascii_unicode ''sk-0123456789abcdefghij'' ''openai''"
    by (simp add: ValidateAPIKey_def ascii_unicode_def)
  have blank: "new_SambaClient\<lparr>apiKey := []\<rparr> = new_SambaClient"
    by (simp add: new_SambaClient_def)
  have 1: "TogetherClient_Initialize Map.empty new_TogetherClient
     = (new_TogetherClient, Some (Errorf ''TOGETHER_API_KEY env var not set''))"
    "GroqClient_Initialize Map.empty new_GroqClient
     = (new_GroqClient, Some (Errorf ''GROQ_API_KEY env var not set''))"
    "SambaClient_Initialize Map.empty new_SambaClient
     = (new_SambaClient, Some (Errorf ''SAMBA_API_KEY env var not set''))"
    "OpenAIClient_Initialize ascii_unicode Map.empty new_OpenAIClient
     = (new_OpenAIClient, Some (Errorf ''OPENAI_API_KEY env var not set''))"
    "GeminiClient_Initialize (\<lambda>key. Inr \<lparr>APIKey = key\<rparr>) Map.empty new_GeminiClient
     = (new_GeminiClient, Some (Errorf ''GEMINI_API_KEY env var not set''))"
    using missing unset blank by simp_all
  have 2: "CreateChatClient (offline Map.empty) ProviderTogether
     = Inl (Errorf ''TOGETHER_API_KEY not set for Together provider'')"
    "CreateChatClient (offline Map.empty) ProviderGroq
     = Inl (Errorf ''GROQ_API_KEY not set for Groq provider'')"
    "CreateChatClient (offline Map.empty) ProviderSamba
     = Inl (Errorf ''SAMBA_API_KEY not set for Samba provider'')"
    "CreateChatClient (offline Map.empty) ProviderOpenAI
     = Inl (Errorf ''OPENAI_API_KEY not set for OpenAI provider'')"
    "CreateChatClient (offline Map.empty) ProviderGemini
     = Inl (Errorf ''GEMINI_API_KEY not set for Gemini provider'')"
    using missing unset sys by simp_all
  have 3: "snd (TogetherClient_Initialize all_keys new_TogetherClient) = None"
    "snd (GroqClient_Initialize all_keys new_GroqClient) = None"
    "snd (SambaClient_Initialize all_keys new_SambaClient) = None"
    "snd (OpenAIClient_Initialize ascii_unicode all_keys new_OpenAIClient) = None"
    "snd (GeminiClient_Initialize (\<lambda>key. Inr \<lparr>APIKey = key\<rparr>) all_keys new_GeminiClient) = None"
    using given keys valid by simp_all
  have 4: "snd (GroqClient_Initialize (all_keys(''GROQ_MODEL'' \<mapsto> ''no-such-model''))
             new_GroqClient) = None"
    using given 3(2) by simp
  from 1 2 3 4 show ?thesis by simp
qed

text \<open>
  The claim as first stated fails: with the credential present, \<^verbatim>\<open>Initialize\<close> of the
  OpenAI adapter fails on a key that does not start with \<open>sk-\<close>.
\<close>

theorem credential_invalid_key_counterexample:
  "Getenv [''OPENAI_API_KEY'' \<mapsto> ''pk-0123456789abcdefghij''] ''OPENAI_API_KEY'' \<noteq> []
   \<and> OpenAIClient_Initialize ascii_unicode [''OPENAI_API_KEY'' \<mapsto> ''pk-0123456789abcdefghij'']
        new_OpenAIClient
     = (new_OpenAIClient, Some (Errorf ''OPENAI_API_KEY appears invalid''))"
  by (simp add: OpenAIClient_Initialize_def Getenv_def ValidateAPIKey_def ascii_unicode_def)

subsection \<open>Model resolution\<close>

lemma index_unrecognized:
  "unrecognized table env var \<Longrightarrow> index table (Getenv env var) = []"
  by (auto simp: unrecognized_def index_def split: option.split dest: map_of_SomeD
           intro: rev_image_eqI)

text \<open>
  Claim C4.  An alias variable that is unset is unrecognized.  For every provider, when the
  alias variable is unrecognized, the adapter that \<^verbatim>\<open>Initialize\<close> has set up reports the
  provider's default model through \<^verbatim>\<open>GetModelName\<close>, a non-empty text (for the Ollama
  adapter even when the probe fails).  The value of the alias variable never changes the
  error \<^verbatim>\<open>Initialize\<close> returns: resolving the model is never an error.
\<close>

theorem model_resolution_default:
  "(env ''OLLAMA_MODEL'' = None \<longrightarrow> unrecognized ollamaModels env ''OLLAMA_MODEL'')
   \<and> (env ''OPENAI_MODEL'' = None \<longrightarrow> unrecognized openaiModels env ''OPENAI_MODEL'')
   \<and> (env ''GROQ_MODEL'' = None \<longrightarrow> unrecognized groqModels env ''GROQ_MODEL'')
   \<and> (env ''TOGETHER_MODEL'' = None \<longrightarrow> unrecognized togetherModels env ''TOGETHER_MODEL'')
   \<and> (env ''GEMINI_MODEL'' = None \<longrightarrow> unrecognized geminiModels env ''GEMINI_MODEL'')
   \<and> (env ''SAMBA_MODEL'' = None \<longrightarrow> unrecognized sambaModels env ''SAMBA_MODEL'')
   \<and> (unrecognized ollamaModels env ''OLLAMA_MODEL'' \<longrightarrow>
        GetModelName (Ollama (fst (OllamaClient_Initialize env Get ol))) = ''llama3:latest'')
   \<and> (unrecognized openaiModels env ''OPENAI_MODEL''
       \<and> snd (OpenAIClient_Initialize u env oc) = None \<longrightarrow>
        GetModelName (OpenAI (fst (OpenAIClient_Initialize u env oc))) = ''gpt-4.1-nano'')
   \<and> (unrecognized groqModels env ''GROQ_MODEL''
       \<and> snd (GroqClient_Initialize env g) = None \<longrightarrow>
        GetModelName (Groq (fst (GroqClient_Initialize env g))) = ''gemma2-9b-it'')
   \<and> (unrecognized togetherModels env ''TOGETHER_MODEL''
       \<and> snd (TogetherClient_Initialize env t) = None \<longrightarrow>
        GetModelName (Together (fst (TogetherClient_Initialize env t)))
          = ''meta-llama/Llama-3.3-70B-Instruct-Turbo-Free'')
   \<and> (unrecognized geminiModels env ''GEMINI_MODEL''
       \<and> snd (GeminiClient_Initialize NewClient env gm) = None \<longrightarrow>
        GetModelName (Gemini (fst (GeminiClient_Initialize NewClient env gm)))
          = ''gemini-2.0-flash-lite'')
   \<and> (unrecognized sambaModels env ''SAMBA_MODEL''
       \<and> snd (SambaClient_Initialize env s) = None \<longrightarrow>
        GetModelName (Samba (fst (SambaClient_Initialize env s)))
          = ''Meta-Llama-3.3-70B-Instruct'')
   \<and> snd (OllamaClient_Initialize (env(''OLLAMA_MODEL'' := setting)) Get ol)
       = snd (OllamaClient_Initialize env Get ol)
   \<and> snd (OpenAIClient_Initialize u (env(''OPENAI_MODEL'' := setting)) oc)
       = snd (OpenAIClient_Initialize u env oc)
   \<and> snd (GroqClient_Initialize (env(''GROQ_MODEL'' := setting)) g)
       = snd (GroqClient_Initialize env g)
   \<and> snd (TogetherClient_Initialize (env(''TOGETHER_MODEL'' := setting)) t)
       = snd (TogetherClient_Initialize env t)
   \<and> snd (GeminiClient_Initialize NewClient (env(''GEMINI_MODEL'' := setting)) gm)
       = snd (GeminiClient_Initialize NewClient env gm)
   \<and> snd (SambaClient_Initialize (env(''SAMBA_MODEL'' := setting)) s)
       = snd (SambaClient_Initialize env s)"
proof (intro conjI impI)
  assume "unrecognized ollamaModels env ''OLLAMA_MODEL''"
  from index_unrecognized [OF this]
  show "GetModelName (Ollama (fst (OllamaClient_Initialize env Get ol))) = ''llama3:latest''"
    by (simp add: OllamaClient_Initialize_def OllamaClient_GetModelName_def Let_def
          split: sum.split)
       (simp add: index_def ollamaModels_def)
next
  assume "unrecognized openaiModels env ''OPENAI_MODEL''
       \<and> snd (OpenAIClient_Initialize u env oc) = None"
  then have "index openaiModels (Getenv env ''OPENAI_MODEL'') = []"
    and "snd (OpenAIClient_Initialize u env oc) = None"
    by (simp_all add: index_unrecognized)
  then show "GetModelName (OpenAI (fst (OpenAIClient_Initialize u env oc))) = ''gpt-4.1-nano''"
    by (simp add: OpenAIClient_Initialize_def OpenAIClient_GetModelName_def Let_def
          split: if_splits)
       (simp add: index_def openaiModels_def)
next
  assume "unrecognized groqModels env ''GROQ_MODEL''
       \<and> snd (GroqClient_Initialize env g) = None"
  then have "index groqModels (Getenv env ''GROQ_MODEL'') = []"
    and "snd (GroqClient_Initialize env g) = None"
    by (simp_all add: index_unrecognized)
  then show "GetModelName (Groq (fst (GroqClient_Initialize env g))) = ''gemma2-9b-it''"
    by (simp add: GroqClient_Initialize_def GroqClient_GetModelName_def Let_def
          split: if_splits)
       (simp add: index_def groqModels_def)
next
  assume "unrecognized togetherModels env ''TOGETHER_MODEL''
       \<and> snd (TogetherClient_Initialize env t) = None"
  then have "index togetherModels (Getenv env ''TOGETHER_MODEL'') = []"
    and "snd (TogetherClient_Initialize env t) = None"
    by (simp_all add: index_unrecognized)
  then show "GetModelName (Together (fst (TogetherClient_Initialize env t)))
          = ''meta-llama/Llama-3.3-70B-Instruct-Turbo-Free''"
    by (simp add: TogetherClient_Initialize_def TogetherClient_GetModelName_def Let_def
          split: if_splits)
       (simp add: index_def togetherModels_def)
next
  assume "unrecognized geminiModels env ''GEMINI_MODEL''
       \<and> snd (GeminiClient_Initialize NewClient env gm) = None"
  then have "index geminiModels (Getenv env ''GEMINI_MODEL'') = []"
    and "snd (GeminiClient_Initialize NewClient env gm) = None"
    by (simp_all add: index_unrecognized)
  then show "GetModelName (Gemini (fst (GeminiClient_Initialize NewClient env gm)))
          = ''gemini-2.0-flash-lite''"
    by (simp add: GeminiClient_Initialize_def GeminiClient_GetModelName_def Let_def
          split: if_splits sum.splits)
       (simp add: index_def geminiModels_def)
next
  assume "unrecognized sambaModels env ''SAMBA_MODEL''
       \<and> snd (SambaClient_Initialize env s) = None"
  then have "index sambaModels (Getenv env ''SAMBA_MODEL'') = []"
    and "snd (SambaClient_Initialize env s) = None"
    by (simp_all add: index_unrecognized)
  then show "GetModelName (Samba (fst (SambaClient_Initialize env s)))
          = ''Meta-Llama-3.3-70B-Instruct''"
    by (simp add: SambaClient_Initialize_def SambaClient_GetModelName_def Let_def
          split: if_splits)
       (simp add: index_def sambaModels_def)
next
  show "snd (OllamaClient_Initialize (env(''OLLAMA_MODEL'' := setting)) Get ol)
       = snd (OllamaClient_Initialize env Get ol)"
    by (simp add: OllamaClient_Initialize_def Let_def Getenv_other split: sum.split)
  show "snd (OpenAIClient_Initialize u (env(''OPENAI_MODEL'' := setting)) oc)
       = snd (OpenAIClient_Initialize u env oc)"
    by (simp add: OpenAIClient_Initialize_def Let_def Getenv_other)
  show "snd (GroqClient_Initialize (env(''GROQ_MODEL'' := setting)) g)
       = snd (GroqClient_Initialize env g)"
    by (simp add: GroqClient_Initialize_def Let_def Getenv_other)
  show "snd (TogetherClient_Initialize (env(''TOGETHER_MODEL'' := setting)) t)
       = snd (TogetherClient_Initialize env t)"
    by (simp add: TogetherClient_Initialize_def Let_def Getenv_other)
  show "snd (GeminiClient_Initialize NewClient (env(''GEMINI_MODEL'' := setting)) gm)
       = snd (GeminiClient_Initialize NewClient env gm)"
    by (simp add: GeminiClient_Initialize_def Let_def Getenv_other split: sum.split)
  show "snd (SambaClient_Initialize (env(''SAMBA_MODEL'' := setting)) s)
       = snd (SambaClient_Initialize env s)"
    by (simp add: SambaClient_Initialize_def Let_def Getenv_other)
qed (simp_all add: unrecognized_def Getenv_def ollamaModels_def openaiModels_def groqModels_def
       togetherModels_def geminiModels_def sambaModels_def)

theorem model_resolution_default_witness:
  "all_keys ''OLLAMA_MODEL'' = None \<and> all_keys ''OPENAI_MODEL'' = None
   \<and> all_keys ''GROQ_MODEL'' = None \<and> all_keys ''TOGETHER_MODEL'' = None
   \<and> all_keys ''GEMINI_MODEL'' = None \<and> all_keys ''SAMBA_MODEL'' = None
   \<and> GetModelName (Ollama (fst (OllamaClient_Initialize all_keys
          (probe_answers ''http://localhost:11434'' 200) new_OllamaClient))) = ''llama3:latest''
   \<and> GetModelName (OpenAI (fst (OpenAIClient_Initialize ascii_unicode all_keys
          new_OpenAIClient))) = ''gpt-4.1-nano''
   \<and> GetModelName (Groq (fst (GroqClient_Initialize all_keys new_GroqClient)))
       = ''gemma2-9b-it''
   \<and> GetModelName (Together (fst (TogetherClient_Initialize all_keys new_TogetherClient)))
       = ''meta-llama/Llama-3.3-70B-Instruct-Turbo-Free''
   \<and> GetModelName (Gemini (fst (GeminiClient_Initialize (\<lambda>key. Inr \<lparr>APIKey = key\<rparr>)
          all_keys new_GeminiClient))) = ''gemini-2.0-flash-lite''
   \<and> GetModelName (Samba (fst (SambaClient_Initialize all_keys new_SambaClient)))
       = ''Meta-Llama-3.3-70B-Instruct''
   \<and> unrecognized groqModels (all_keys(''GROQ_MODEL'' \<mapsto> ''no-such-model'')) ''GROQ_MODEL''
   \<and> snd (GroqClient_Initialize (all_keys(''GROQ_MODEL'' \<mapsto> ''no-such-model''))
            new_GroqClient) = None
   \<and> GetModelName (Groq (fst (GroqClient_Initialize
          (all_keys(''GROQ_MODEL'' \<mapsto> ''no-such-model'')) new_GroqClient))) = ''gemma2-9b-it''"
proof -
  let ?New = "\<lambda>key. Inr \<lparr>APIKey = key\<rparr> :: error + genai_Client"
  let ?Get = "probe_answers ''http://localhost:11434'' 200"
  let ?other = "all_keys(''GROQ_MODEL'' \<mapsto> ''no-such-model'')"
  note unset = model_resolution_default [where env = all_keys and Get = ?Get
      and ol = new_OllamaClient and u = ascii_unicode and oc = new_OpenAIClient
      and g = new_GroqClient and t = new_TogetherClient and NewClient = ?New
      and gm = new_GeminiClient and s = new_SambaClient]
  note other = model_resolution_default [where env = ?other and g = new_GroqClient]
  have 0: "all_keys ''OLLAMA_MODEL'' = None" "all_keys ''OPENAI_MODEL'' = None"
    "all_keys ''GROQ_MODEL'' = None" "all_keys ''TOGETHER_MODEL'' = None"
    "all_keys ''GEMINI_MODEL'' = None" "all_keys ''SAMBA_MODEL'' = None"
    by (simp_all add: all_keys_def)
  have valid: "ValidateAPIKey ascii_unicode ''sk-0123456789abcdefghij'' ''openai''"
    by (simp add: ValidateAPIKey_def ascii_unicode_def)
  have ok: "snd (OpenAIClient_Initialize ascii_unicode all_keys new_OpenAIClient) = None"
    "snd (GroqClient_Initialize all_keys new_GroqClient) = None"
    "snd (TogetherClient_Initialize all_keys new_TogetherClient) = None"
    "snd (GeminiClient_Initialize ?New all_keys new_GeminiClient) = None"
    "snd (SambaClient_Initialize all_keys new_SambaClient) = None"
    using valid
    by (simp_all add: OpenAIClient_Initialize_def GroqClient_Initialize_def
          TogetherClient_Initialize_def GeminiClient_Initialize_def SambaClient_Initialize_def
          Getenv_def all_keys_def Let_def)
  from unset 0 have 1:
    "GetModelName (Ollama (fst (OllamaClient_Initialize all_keys ?Get new_OllamaClient)))
       = ''llama3:latest''"
    by blast
  from unset 0 ok have 2:
    "GetModelName (OpenAI (fst (OpenAIClient_Initialize ascii_unicode all_keys
          new_OpenAIClient))) = ''gpt-4.1-nano''"
    "GetModelName (Groq (fst (GroqClient_Initialize all_keys new_GroqClient)))
       = ''gemma2-9b-it''"
    "GetModelName (Together (fst (TogetherClient_Initialize all_keys new_TogetherClient)))
       = ''meta-llama/Llama-3.3-70B-Instruct-Turbo-Free''"
    "GetModelName (Gemini (fst (GeminiClient_Initialize ?New all_keys new_GeminiClient)))
       = ''gemini-2.0-flash-lite''"
    "GetModelName (Samba (fst (SambaClient_Initialize all_keys new_SambaClient)))
       = ''Meta-Llama-3.3-70B-Instruct''"
    by blast+
  have 3: "unrecognized groqModels ?other ''GROQ_MODEL''"
    by (simp add: unrecognized_def Getenv_def groqModels_def)
  have 4: "snd (GroqClient_Initialize ?other new_GroqClient) = None"
    by (simp add: GroqClient_Initialize_def Getenv_def all_keys_def Let_def)
  from other 3 4 have 5:
    "GetModelName (Groq (fst (GroqClient_Initialize ?other new_GroqClient))) = ''gemma2-9b-it''"
    by blast
  from 0 1 2 3 4 5 show ?thesis by blast
qed

end
